theory Spec2Isabelle
  imports Complex_Main "HOL-Library.AList"
begin

section \<open>JavaScript values used by the submitter service\<close>

text \<open>
  The service only carries numbers around (it never computes with a configured number),
  so a number is a real; the defaults are the numeric constants of the source.
\<close>

type_synonym js_number = real

text \<open>
  The \<open>enabled\<close> flag is read with \<open>submitterConfig['enabled'] ?? true\<close> and then
  tested with \<open>!\<close>, so its truthiness matters: it is a JavaScript value.
\<close>

datatype js_value =
    JUndefined
  | JNull
  | JBool bool
  | JNumber js_number
  | JNaN
  | JString string
  | JObject

fun nullish :: "js_value \<Rightarrow> bool" where
  "nullish JUndefined = True"
| "nullish JNull = True"
| "nullish _ = False"

fun truthy :: "js_value \<Rightarrow> bool" where
  "truthy JUndefined = False"
| "truthy JNull = False"
| "truthy (JBool b) = b"
| "truthy (JNumber n) = (n \<noteq> 0)"
| "truthy JNaN = False"
| "truthy (JString s) = (s \<noteq> [])"
| "truthy JObject = True"

text \<open>
  The operator \<open>a ?? b\<close> on a value, and on an optional number (\<open>None\<close> is a missing
  key, \<open>undefined\<close> or \<open>null\<close>: the operator does not tell them apart).
\<close>

definition coalesce_value :: "js_value \<Rightarrow> js_value \<Rightarrow> js_value" where
  "coalesce_value a b = (if nullish a then b else a)"

definition coalesce :: "'a option \<Rightarrow> 'a \<Rightarrow> 'a" where
  "coalesce a b = (case a of None \<Rightarrow> b | Some v \<Rightarrow> v)"

text \<open>
  What a \<open>throw\<close> carries: an \<open>Error\<close> made by the program, or the \<open>TypeError\<close> the
  runtime raises when a property of \<open>undefined\<close> is read (its argument is the property).
\<close>

datatype js_error = Error string | TypeError string

text \<open>
  A \<open>Record<string, number>\<close> is the list of its own properties in insertion order,
  which is the order \<open>for ... in\<close> walks them in. (JavaScript walks keys that are
  array indices first, in numeric order; the keys here are names, and what is proved
  about the values of keys holds for any order.)
\<close>

type_synonym js_record = "(string \<times> js_number) list"

text \<open>
  The test \<open>k in obj\<close> for a key that \<open>Object.prototype\<close> does not have, as \<open>default\<close>:
  the key is an own property.
\<close>

definition js_in :: "string \<Rightarrow> (string \<times> 'v) list \<Rightarrow> bool" where
  "js_in k obj = (map_of obj k \<noteq> None)"

text \<open>
  The assignment \<open>obj[k] = v\<close> on a plain object, for a value that is a number. An own
  key has its value replaced where it stands, and a new key is appended. The key
  \<open>__proto__\<close> is the exception: unless the object has it as an own property, the
  assignment reaches the setter of \<open>Object.prototype\<close>, which ignores a value that is
  neither an object nor \<open>null\<close>, and the object gets no new key.
\<close>

definition js_assign :: "string \<Rightarrow> 'v \<Rightarrow> (string \<times> 'v) list \<Rightarrow> (string \<times> 'v) list" where
  "js_assign k v obj =
     (if k = ''__proto__'' \<and> map_of obj k = None then obj else AList.update k v obj)"

text \<open>
  \<open>Map.prototype.set\<close>: every string is an ordinary key; the value of a key already in
  the map is replaced where it stands, and a new key is appended.
\<close>

definition map_set :: "string \<Rightarrow> 'v \<Rightarrow> (string \<times> 'v) list \<Rightarrow> (string \<times> 'v) list" where
  "map_set k v m = AList.update k v m"

text \<open>
  Objects that are shared and mutated live in a store: a reference is an address, and
  \<open>next_ref\<close> is the first address not yet handed out by an object literal.
\<close>

type_synonym ref = nat

record js_heap =
  cells :: "ref \<Rightarrow> js_record"
  next_ref :: ref

definition alloc :: "js_record \<Rightarrow> js_heap \<Rightarrow> ref \<times> js_heap" where
  "alloc obj h =
     (next_ref h, h\<lparr>cells := (cells h)(next_ref h := obj), next_ref := Suc (next_ref h)\<rparr>)"

section \<open>Constants and data model\<close>

definition RETRY_INTERVAL_DEFAULT :: js_number where
  "RETRY_INTERVAL_DEFAULT = 2000"

definition PROCESSING_INTERVAL_DEFAULT :: js_number where
  "PROCESSING_INTERVAL_DEFAULT = 100"

definition MAX_TRIES_DEFAULT :: js_number where
  "MAX_TRIES_DEFAULT = 3"

definition MAX_PENDING_TRANSACTIONS :: js_number where
  "MAX_PENDING_TRANSACTIONS = 1000"

definition NEW_ORDERS_DELAY_DEFAULT :: js_number where
  "NEW_ORDERS_DELAY_DEFAULT = 0"

definition TRANSACTION_TIMEOUT_DEFAULT :: js_number where
  "TRANSACTION_TIMEOUT_DEFAULT = 10 * 60000"

text \<open>
  The submitter section of the relayer configuration, as \<open>loadGlobalSubmitterConfig\<close>
  reads it: every key may be missing.
\<close>

record RelayerSubmitterConfig =
  enabled :: js_value
  newOrdersDelay :: "js_number option"
  retryInterval :: "js_number option"
  processingInterval :: "js_number option"
  maxTries :: "js_number option"
  maxPendingTransactions :: "js_number option"
  transactionTimeout :: "js_number option"
  gasLimitBuffer :: "ref option"

record GlobalSubmitterConfig =
  enabled :: js_value
  newOrdersDelay :: js_number
  retryInterval :: js_number
  processingInterval :: js_number
  maxTries :: js_number
  maxPendingTransactions :: js_number
  transactionTimeout :: js_number
  gasLimitBuffer :: ref

text \<open>The submitter section of one chain, as \<open>loadWorkerConfig\<close> reads it.\<close>

record ChainSubmitterConfig =
  newOrdersDelay :: "js_number option"
  retryInterval :: "js_number option"
  processingInterval :: "js_number option"
  maxTries :: "js_number option"
  maxPendingTransactions :: "js_number option"
  transactionTimeout :: "js_number option"
  gasLimitBuffer :: "ref option"
  maxFeePerGas :: "js_number option"
  maxPriorityFeeAdjustmentFactor :: "js_number option"
  maxAllowedPriorityFeePerGas :: "js_number option"
  gasPriceAdjustmentFactor :: "js_number option"
  maxAllowedGasPrice :: "js_number option"

text \<open>
  A submitter section is optional in the configuration: \<open>None\<close> is a \<open>submitter\<close>
  property that is \<open>undefined\<close>. The declarations of \<open>ChainConfig\<close> and of the relayer
  configuration are in the configuration service; the fields here are the ones this
  service reads.
\<close>

record ChainConfig =
  chainId :: string
  rpc :: string
  submitter :: "ChainSubmitterConfig option"

record RelayerConfig =
  privateKey :: string
  submitter :: "RelayerSubmitterConfig option"

text \<open>
  A bridge adapter: its name and its address lookup, which may throw.
\<close>

record AMBConfig =
  name :: string
  getIncentivesAddress :: "string \<Rightarrow> js_error + string"

text \<open>
  The configuration service. \<open>chainsConfig\<close> is a \<open>Map\<close> whose entries the service
  walks in insertion order; \<open>ambsConfig\<close> is the collection \<open>forEach\<close> walks, in order.
\<close>

record ConfigService =
  relayerConfig :: RelayerConfig
  chainsConfig :: "(string \<times> ChainConfig) list"
  ambsConfig :: "AMBConfig list"

type_synonym LoggerOptions = "(string \<times> string) list"

record SubmitterWorkerData =
  chainId :: string
  rpc :: string
  relayerPrivateKey :: string
  incentivesAddresses :: "(string \<times> string) list"
  newOrdersDelay :: js_number
  retryInterval :: js_number
  processingInterval :: js_number
  maxTries :: js_number
  maxPendingTransactions :: js_number
  transactionTimeout :: js_number
  gasLimitBuffer :: js_record
  maxFeePerGas :: "js_number option"
  maxPriorityFeeAdjustmentFactor :: "js_number option"
  maxAllowedPriorityFeePerGas :: "js_number option"
  gasPriceAdjustmentFactor :: "js_number option"
  maxAllowedGasPrice :: "js_number option"
  loggerOptions :: LoggerOptions

section \<open>Configuration resolution\<close>

text \<open>
  \<open>loadGlobalSubmitterConfig\<close>. Reading \<open>submitterConfig['enabled']\<close> is the first
  property read on the section and throws when the section is \<open>undefined\<close>. The
  gas-limit buffer is an object reference: the supplied object when there is one, a new
  empty object otherwise; the assignment \<open>gasLimitBuffer['default'] = 0\<close> writes through
  that reference.
\<close>

definition loadGlobalSubmitterConfig ::
    "ConfigService \<Rightarrow> js_heap \<Rightarrow> js_error + GlobalSubmitterConfig \<times> js_heap" where
  "loadGlobalSubmitterConfig configService h =
     (case RelayerConfig.submitter (relayerConfig configService) of
        None \<Rightarrow> Inl (TypeError ''enabled'')
      | Some submitterConfig \<Rightarrow>
     (let enabled = coalesce_value (RelayerSubmitterConfig.enabled submitterConfig) (JBool True);
          newOrdersDelay =
            coalesce (RelayerSubmitterConfig.newOrdersDelay submitterConfig) NEW_ORDERS_DELAY_DEFAULT;
          retryInterval =
            coalesce (RelayerSubmitterConfig.retryInterval submitterConfig) RETRY_INTERVAL_DEFAULT;
          processingInterval =
            coalesce (RelayerSubmitterConfig.processingInterval submitterConfig)
              PROCESSING_INTERVAL_DEFAULT;
          maxTries = coalesce (RelayerSubmitterConfig.maxTries submitterConfig) MAX_TRIES_DEFAULT;
          maxPendingTransactions =
            coalesce (RelayerSubmitterConfig.maxPendingTransactions submitterConfig)
              MAX_PENDING_TRANSACTIONS;
          transactionTimeout =
            coalesce (RelayerSubmitterConfig.transactionTimeout submitterConfig)
              TRANSACTION_TIMEOUT_DEFAULT;
          (gasLimitBuffer, h1) =
            (case RelayerSubmitterConfig.gasLimitBuffer submitterConfig of
               Some r \<Rightarrow> (r, h)
             | None \<Rightarrow> alloc [] h);
          h2 = (if \<not> js_in ''default'' (cells h1 gasLimitBuffer)
                then h1\<lparr>cells := (cells h1)
                       (gasLimitBuffer := js_assign ''default'' 0 (cells h1 gasLimitBuffer))\<rparr>
                else h1)
      in Inr (\<lparr> GlobalSubmitterConfig.enabled = enabled,
             GlobalSubmitterConfig.newOrdersDelay = newOrdersDelay,
             GlobalSubmitterConfig.retryInterval = retryInterval,
             GlobalSubmitterConfig.processingInterval = processingInterval,
             GlobalSubmitterConfig.maxTries = maxTries,
             GlobalSubmitterConfig.maxPendingTransactions = maxPendingTransactions,
             GlobalSubmitterConfig.transactionTimeout = transactionTimeout,
             GlobalSubmitterConfig.gasLimitBuffer = gasLimitBuffer \<rparr>, h2)))"

text \<open>
  The two \<open>for (const key in ...)\<close> loops of \<open>getChainGasLimitBufferConfig\<close>: for each
  own key of the source object, in order, \<open>target[key] = source[key]\<close>. A key taken from
  the object itself always has a value, so the \<open>None\<close> branch is never taken.
\<close>

fun for_in_assign :: "string list \<Rightarrow> js_record \<Rightarrow> js_record \<Rightarrow> js_record" where
  "for_in_assign [] source target = target"
| "for_in_assign (key # keys) source target =
     for_in_assign keys source
       (case map_of source key of
          Some v \<Rightarrow> js_assign key v target
        | None \<Rightarrow> target)"

definition getChainGasLimitBufferConfig :: "js_record \<Rightarrow> js_record \<Rightarrow> js_record" where
  "getChainGasLimitBufferConfig defaultGasLimitBufferConfig chainGasLimitBufferConfig =
     (let gasLimitBuffers = [];
          gasLimitBuffers =
            for_in_assign (map fst defaultGasLimitBufferConfig) defaultGasLimitBufferConfig
              gasLimitBuffers;
          gasLimitBuffers =
            for_in_assign (map fst chainGasLimitBufferConfig) chainGasLimitBufferConfig
              gasLimitBuffers
      in gasLimitBuffers)"

text \<open>
  The \<open>forEach\<close> over the adapters: each step sets the adapter's name to the address it
  returns for the chain; a lookup that throws ends the walk with that error.
\<close>

fun forEach_incentivesAddress ::
    "AMBConfig list \<Rightarrow> string \<Rightarrow> (string \<times> string) list \<Rightarrow> js_error + (string \<times> string) list" where
  "forEach_incentivesAddress [] cid addresses = Inr addresses"
| "forEach_incentivesAddress (amb # ambs) cid addresses =
     (case getIncentivesAddress amb cid of
        Inl e \<Rightarrow> Inl e
      | Inr address \<Rightarrow>
          forEach_incentivesAddress ambs cid (map_set (name amb) address addresses))"

text \<open>
  \<open>loadWorkerConfig\<close>. The adapters are walked first; the object literal is evaluated
  after it, and its first read, \<open>chainConfig.submitter.newOrdersDelay\<close>, throws when the
  chain has no submitter section. The heap is only read: the global gas-limit buffer
  and the chain's one are dereferenced, and the merged record is a new object that only
  the returned worker data holds.
\<close>

definition loadWorkerConfig ::
    "ConfigService \<Rightarrow> LoggerOptions \<Rightarrow> ChainConfig \<Rightarrow> GlobalSubmitterConfig \<Rightarrow> js_heap
       \<Rightarrow> js_error + SubmitterWorkerData" where
  "loadWorkerConfig configService loggerOpts chainConfig globalConfig h =
     (let chainId = ChainConfig.chainId chainConfig;
          rpc = ChainConfig.rpc chainConfig;
          relayerPrivateKey = privateKey (relayerConfig configService)
      in case forEach_incentivesAddress (ambsConfig configService)
                (ChainConfig.chainId chainConfig) [] of
           Inl e \<Rightarrow> Inl e
         | Inr addresses \<Rightarrow>
        (case ChainConfig.submitter chainConfig of
           None \<Rightarrow> Inl (TypeError ''newOrdersDelay'')
         | Some sub \<Rightarrow> Inr
            \<lparr> SubmitterWorkerData.chainId = chainId,
              SubmitterWorkerData.rpc = rpc,
              relayerPrivateKey = relayerPrivateKey,
              incentivesAddresses = addresses,
              SubmitterWorkerData.newOrdersDelay =
                coalesce (ChainSubmitterConfig.newOrdersDelay sub)
                  (GlobalSubmitterConfig.newOrdersDelay globalConfig),
              SubmitterWorkerData.retryInterval =
                coalesce (ChainSubmitterConfig.retryInterval sub)
                  (GlobalSubmitterConfig.retryInterval globalConfig),
              SubmitterWorkerData.processingInterval =
                coalesce (ChainSubmitterConfig.processingInterval sub)
                  (GlobalSubmitterConfig.processingInterval globalConfig),
              SubmitterWorkerData.maxTries =
                coalesce (ChainSubmitterConfig.maxTries sub)
                  (GlobalSubmitterConfig.maxTries globalConfig),
              SubmitterWorkerData.maxPendingTransactions =
                coalesce (ChainSubmitterConfig.maxPendingTransactions sub)
                  (GlobalSubmitterConfig.maxPendingTransactions globalConfig),
              SubmitterWorkerData.transactionTimeout =
                coalesce (ChainSubmitterConfig.transactionTimeout sub)
                  (GlobalSubmitterConfig.transactionTimeout globalConfig),
              SubmitterWorkerData.gasLimitBuffer =
                getChainGasLimitBufferConfig
                  (cells h (GlobalSubmitterConfig.gasLimitBuffer globalConfig))
                  (case ChainSubmitterConfig.gasLimitBuffer sub of
                     Some r \<Rightarrow> cells h r
                   | None \<Rightarrow> []),
              SubmitterWorkerData.maxFeePerGas = ChainSubmitterConfig.maxFeePerGas sub,
              SubmitterWorkerData.maxPriorityFeeAdjustmentFactor =
                ChainSubmitterConfig.maxPriorityFeeAdjustmentFactor sub,
              SubmitterWorkerData.maxAllowedPriorityFeePerGas =
                ChainSubmitterConfig.maxAllowedPriorityFeePerGas sub,
              SubmitterWorkerData.gasPriceAdjustmentFactor =
                ChainSubmitterConfig.gasPriceAdjustmentFactor sub,
              SubmitterWorkerData.maxAllowedGasPrice =
                ChainSubmitterConfig.maxAllowedGasPrice sub,
              loggerOptions = loggerOpts \<rparr>))"

section \<open>The supervisor\<close>

datatype log_level = Info | Fatal

record log_entry =
  level :: log_level
  payload :: "js_error option"
  message :: string

text \<open>
  The two arrow functions handed to \<open>worker.on\<close> are closures over the chain's id; each
  is the constructor holding the captured \<open>chainConfig.chainId\<close>.
\<close>

datatype error_listener = FatalOnError string

datatype exit_listener = FatalOnExit string

record Worker =
  filename :: string
  workerData :: SubmitterWorkerData
  on_error :: "error_listener list"
  on_exit :: "exit_listener list"

text \<open>
  What the service can change: the object store, the log written through the logger
  service, the worker threads the runtime has started, and its own \<open>workers\<close> map.
\<close>

record world =
  heap :: js_heap
  log :: "log_entry list"
  threads :: "Worker list"
  workers :: "(string \<times> Worker) list"

datatype outcome = Resolved | Rejected js_error

definition info :: "string \<Rightarrow> world \<Rightarrow> world" where
  "info msg s = s\<lparr>log := log s @ [\<lparr>level = Info, payload = None, message = msg\<rparr>]\<rparr>"

definition fatal :: "js_error option \<Rightarrow> string \<Rightarrow> world \<Rightarrow> world" where
  "fatal err msg s = s\<lparr>log := log s @ [\<lparr>level = Fatal, payload = err, message = msg\<rparr>]\<rparr>"

text \<open>The decimal text a template literal gives an integer exit code.\<close>

fun decimal :: "nat \<Rightarrow> string" where
  "decimal n =
     (if n < 10 then [''0123456789'' ! n]
      else decimal (n div 10) @ [''0123456789'' ! (n mod 10)])"

definition string_of_int :: "int \<Rightarrow> string" where
  "string_of_int i = (if i < 0 then ''-'' @ decimal (nat (- i)) else decimal (nat i))"

text \<open>
  Reading a decimal numeral back, left to right; this is what the text of an exit code
  is checked against.
\<close>

definition digit_value :: "char \<Rightarrow> nat" where
  "digit_value c = length (takeWhile (\<lambda>d. d \<noteq> c) ''0123456789'')"

definition decimal_value :: "string \<Rightarrow> nat" where
  "decimal_value ds = foldl (\<lambda>n c. 10 * n + digit_value c) 0 ds"

definition int_of_string :: "string \<Rightarrow> int" where
  "int_of_string t =
     (case t of
        [] \<Rightarrow> 0
      | c # cs \<Rightarrow> if c = CHR ''-'' then - int (decimal_value cs) else int (decimal_value t))"

definition join :: "string \<Rightarrow> string \<Rightarrow> string" where
  "join dir file = dir @ ''/'' @ file"

definition new_Worker :: "string \<Rightarrow> SubmitterWorkerData \<Rightarrow> Worker" where
  "new_Worker file data = \<lparr>filename = file, workerData = data, on_error = [], on_exit = []\<rparr>"

fun run_error_listener :: "error_listener \<Rightarrow> js_error \<Rightarrow> world \<Rightarrow> world" where
  "run_error_listener (FatalOnError cid) error s =
     fatal (Some error) (''Error on submitter worker (chain '' @ cid @ '').'') s"

fun run_exit_listener :: "exit_listener \<Rightarrow> int \<Rightarrow> world \<Rightarrow> world" where
  "run_exit_listener (FatalOnExit cid) exitCode s =
     fatal None
       (''Submitter worker exited with code '' @ string_of_int exitCode
          @ '' (chain '' @ cid @ '').'') s"

text \<open>
  The runtime delivering a worker's \<open>error\<close> or \<open>exit\<close> event: every listener registered
  for that event runs, in registration order.
\<close>

definition emit_error :: "Worker \<Rightarrow> js_error \<Rightarrow> world \<Rightarrow> world" where
  "emit_error w error s = fold (\<lambda>l. run_error_listener l error) (on_error w) s"

definition emit_exit :: "Worker \<Rightarrow> int \<Rightarrow> world \<Rightarrow> world" where
  "emit_exit w exitCode s = fold (\<lambda>l. run_exit_listener l exitCode) (on_exit w) s"

text \<open>
  How a worker thread ends, as the runtime reports it. An exception that the worker does
  not catch is reported by the \<open>error\<close> event, and then, the worker being terminated, by
  the \<open>exit\<close> event with exit code 1; a worker that stops in any other way is reported
  by the \<open>exit\<close> event alone, with its exit code.
\<close>

datatype worker_end = Errored js_error | Exited int

fun worker_ends :: "Worker \<Rightarrow> worker_end \<Rightarrow> world \<Rightarrow> world" where
  "worker_ends w (Errored error) s = emit_exit w 1 (emit_error w error s)"
| "worker_ends w (Exited exitCode) s = emit_exit w exitCode s"

text \<open>
  The body of the \<open>for\<close> loop of \<open>onModuleInit\<close> over the chains, in order. A throw of
  \<open>loadWorkerConfig\<close> is not caught: it leaves the loop and the function, with the state
  as the earlier iterations left it. The listeners are attached to the worker before
  it is stored; no event is delivered inside this synchronous code.
\<close>

fun startWorkers ::
    "ConfigService \<Rightarrow> LoggerOptions \<Rightarrow> string \<Rightarrow> GlobalSubmitterConfig \<Rightarrow> ChainConfig list
       \<Rightarrow> world \<Rightarrow> outcome \<times> world" where
  "startWorkers configService loggerOpts dirname globalSubmitterConfig [] s = (Resolved, s)"
| "startWorkers configService loggerOpts dirname globalSubmitterConfig (chainConfig # rest) s =
     (case loadWorkerConfig configService loggerOpts chainConfig globalSubmitterConfig (heap s) of
        Inl e \<Rightarrow> (Rejected e, s)
      | Inr data \<Rightarrow>
          (let worker = new_Worker (join dirname ''submitter.worker.js'') data;
               worker = worker\<lparr>on_error :=
                          on_error worker @ [FatalOnError (ChainConfig.chainId chainConfig)]\<rparr>;
               worker = worker\<lparr>on_exit :=
                          on_exit worker @ [FatalOnExit (ChainConfig.chainId chainConfig)]\<rparr>
           in startWorkers configService loggerOpts dirname globalSubmitterConfig rest
                (s\<lparr>threads := threads s @ [worker],
                   workers := map_set (ChainConfig.chainId chainConfig) worker (workers s)\<rparr>)))"

definition onModuleInit ::
    "ConfigService \<Rightarrow> LoggerOptions \<Rightarrow> string \<Rightarrow> world \<Rightarrow> outcome \<times> world" where
  "onModuleInit configService loggerOpts dirname s =
     (let s = info ''Starting the submitter on all chains...'' s
      in case loadGlobalSubmitterConfig configService (heap s) of
           Inl e \<Rightarrow> (Rejected e, s)
         | Inr (globalSubmitterConfig, h) \<Rightarrow>
            (let s = s\<lparr>heap := h\<rparr>
             in if \<not> truthy (GlobalSubmitterConfig.enabled globalSubmitterConfig)
                then (Resolved, info ''Submitter has been disabled. Ending init early'' s)
                else startWorkers configService loggerOpts dirname globalSubmitterConfig
                       (map snd (chainsConfig configService)) s))"

text \<open>The service as constructed: an empty \<open>workers\<close> map, nothing logged, no thread.\<close>

definition new_SubmitterService :: "js_heap \<Rightarrow> world" where
  "new_SubmitterService h = \<lparr>heap = h, log = [], threads = [], workers = []\<rparr>"

section \<open>Example configurations\<close>

text \<open>
  A store whose object 0 is a gas-limit buffer without a \<open>default\<close> key, and whose
  object 1 is a chain-level buffer.
\<close>

definition example_heap :: js_heap where
  "example_heap =
     \<lparr> cells = (\<lambda>r. if r = 0 then [(''erc20'', 5)]
                     else if r = 1 then [(''erc20'', 10), (''nft'', 3)] else []),
       next_ref = 2 \<rparr>"

definition empty_relayer_submitter :: RelayerSubmitterConfig where
  "empty_relayer_submitter =
     \<lparr> RelayerSubmitterConfig.enabled = JUndefined,
       RelayerSubmitterConfig.newOrdersDelay = None,
       RelayerSubmitterConfig.retryInterval = None,
       RelayerSubmitterConfig.processingInterval = None,
       RelayerSubmitterConfig.maxTries = None,
       RelayerSubmitterConfig.maxPendingTransactions = None,
       RelayerSubmitterConfig.transactionTimeout = None,
       RelayerSubmitterConfig.gasLimitBuffer = None \<rparr>"

definition empty_chain_submitter :: ChainSubmitterConfig where
  "empty_chain_submitter =
     \<lparr> ChainSubmitterConfig.newOrdersDelay = None,
       ChainSubmitterConfig.retryInterval = None,
       ChainSubmitterConfig.processingInterval = None,
       ChainSubmitterConfig.maxTries = None,
       ChainSubmitterConfig.maxPendingTransactions = None,
       ChainSubmitterConfig.transactionTimeout = None,
       ChainSubmitterConfig.gasLimitBuffer = None,
       ChainSubmitterConfig.maxFeePerGas = None,
       ChainSubmitterConfig.maxPriorityFeeAdjustmentFactor = None,
       ChainSubmitterConfig.maxAllowedPriorityFeePerGas = None,
       ChainSubmitterConfig.gasPriceAdjustmentFactor = None,
       ChainSubmitterConfig.maxAllowedGasPrice = None \<rparr>"

definition example_chain :: "string \<Rightarrow> ChainSubmitterConfig \<Rightarrow> ChainConfig" where
  "example_chain cid sub =
     \<lparr> ChainConfig.chainId = cid, ChainConfig.rpc = ''http://rpc/'' @ cid,
       ChainConfig.submitter = Some sub \<rparr>"

text \<open>An adapter deployed everywhere, and one with no deployment on chain \<open>1\<close>.\<close>

definition example_amb :: "string \<Rightarrow> string \<Rightarrow> AMBConfig" where
  "example_amb nm address = \<lparr> name = nm, getIncentivesAddress = (\<lambda>cid. Inr address) \<rparr>"

definition partial_amb :: AMBConfig where
  "partial_amb =
     \<lparr> name = ''wormhole'',
       getIncentivesAddress =
         (\<lambda>cid. if cid = ''1'' then Inl (Error ''no incentives address'') else Inr ''0xW'') \<rparr>"

definition example_configService ::
    "RelayerSubmitterConfig \<Rightarrow> ChainConfig list \<Rightarrow> AMBConfig list \<Rightarrow> ConfigService" where
  "example_configService sub cs ambs =
     \<lparr> relayerConfig = \<lparr> privateKey = ''key'', RelayerConfig.submitter = Some sub \<rparr>,
       chainsConfig = map (\<lambda>c. (ChainConfig.chainId c, c)) cs,
       ambsConfig = ambs \<rparr>"

text \<open>
  The worker data resolved for chain \<open>1\<close> with one adapter and no global setting, as a
  function of the resolved \<open>maxTries\<close>.
\<close>

definition example_workerData :: "js_number \<Rightarrow> SubmitterWorkerData" where
  "example_workerData tries =
     \<lparr> SubmitterWorkerData.chainId = ''1'',
       SubmitterWorkerData.rpc = ''http://rpc/1'',
       relayerPrivateKey = ''key'',
       incentivesAddresses = [(''wormhole'', ''0xW'')],
       SubmitterWorkerData.newOrdersDelay = 0,
       SubmitterWorkerData.retryInterval = 2000,
       SubmitterWorkerData.processingInterval = 100,
       SubmitterWorkerData.maxTries = tries,
       SubmitterWorkerData.maxPendingTransactions = 1000,
       SubmitterWorkerData.transactionTimeout = 600000,
       SubmitterWorkerData.gasLimitBuffer = [(''default'', 0)],
       SubmitterWorkerData.maxFeePerGas = None,
       SubmitterWorkerData.maxPriorityFeeAdjustmentFactor = None,
       SubmitterWorkerData.maxAllowedPriorityFeePerGas = None,
       SubmitterWorkerData.gasPriceAdjustmentFactor = None,
       SubmitterWorkerData.maxAllowedGasPrice = None,
       loggerOptions = [] \<rparr>"

text \<open>
  The worker one iteration of the loop of \<open>onModuleInit\<close> creates for a chain, with both
  listeners attached.
\<close>

definition started_worker :: "string \<Rightarrow> ChainConfig \<Rightarrow> SubmitterWorkerData \<Rightarrow> Worker" where
  "started_worker dir chainConfig data =
     \<lparr> filename = join dir ''submitter.worker.js'',
       workerData = data,
       on_error = [FatalOnError (ChainConfig.chainId chainConfig)],
       on_exit = [FatalOnExit (ChainConfig.chainId chainConfig)] \<rparr>"

text \<open>A configuration whose relayer section has no \<open>submitter\<close> property.\<close>

definition absent_section_configService :: ConfigService where
  "absent_section_configService =
     \<lparr> relayerConfig = \<lparr> privateKey = ''key'', RelayerConfig.submitter = None \<rparr>,
       chainsConfig = [],
       ambsConfig = [] \<rparr>"

text \<open>
  The global configuration made of the defaults alone, with its gas-limit buffer at a
  given reference, and the example store after that buffer was made at reference 2.
\<close>

definition default_global_config :: "ref \<Rightarrow> GlobalSubmitterConfig" where
  "default_global_config r =
     \<lparr> GlobalSubmitterConfig.enabled = JBool True,
       GlobalSubmitterConfig.newOrdersDelay = 0,
       GlobalSubmitterConfig.retryInterval = 2000,
       GlobalSubmitterConfig.processingInterval = 100,
       GlobalSubmitterConfig.maxTries = 3,
       GlobalSubmitterConfig.maxPendingTransactions = 1000,
       GlobalSubmitterConfig.transactionTimeout = 600000,
       GlobalSubmitterConfig.gasLimitBuffer = r \<rparr>"

definition resolved_example_heap :: js_heap where
  "resolved_example_heap =
     example_heap\<lparr>cells := (cells example_heap)(2 := [(''default'', 0)]), next_ref := 3\<rparr>"

text \<open>A chain whose configuration has no \<open>submitter\<close> property.\<close>

definition absent_section_chain :: "string \<Rightarrow> ChainConfig" where
  "absent_section_chain cid =
     \<lparr> ChainConfig.chainId = cid, ChainConfig.rpc = ''http://rpc/'' @ cid,
       ChainConfig.submitter = None \<rparr>"

section \<open>Property-list objects\<close>

lemma update_fresh: "k \<notin> fst ` set al \<Longrightarrow> AList.update k v al = al @ [(k, v)]"
  by (induction al) auto

lemma map_of_js_assign:
  "map_of (js_assign k v obj) =
     (if k = ''__proto__'' \<and> map_of obj k = None then map_of obj else (map_of obj)(k \<mapsto> v))"
  by (auto simp: js_assign_def update_conv')

lemma map_of_js_assign_name:
  "k \<noteq> ''__proto__'' \<Longrightarrow> map_of (js_assign k v obj) = (map_of obj)(k \<mapsto> v)"
  by (simp add: map_of_js_assign)

lemma distinct_js_assign:
  "distinct (map fst obj) \<Longrightarrow> distinct (map fst (js_assign k v obj))"
  by (simp add: js_assign_def distinct_update)

lemma js_assign_same: "map_of obj k = Some v \<Longrightarrow> js_assign k v obj = obj"
  by (simp add: js_assign_def update_triv)

lemma js_assign_proto: "map_of obj ''__proto__'' = None \<Longrightarrow> js_assign ''__proto__'' v obj = obj"
  by (simp add: js_assign_def)

lemma js_assign_new:
  "k \<notin> fst ` set obj \<Longrightarrow> k \<noteq> ''__proto__'' \<Longrightarrow> js_assign k v obj = obj @ [(k, v)]"
  by (simp add: js_assign_def update_fresh)

text \<open>A walk never gives its target the key \<open>__proto__\<close>.\<close>

lemma for_in_assign_no_proto:
  "map_of tgt ''__proto__'' = None \<Longrightarrow> map_of (for_in_assign ks src tgt) ''__proto__'' = None"
proof (induction ks arbitrary: tgt)
  case Nil
  then show ?case by simp
next
  case (Cons key ks)
  have "map_of (case map_of src key of Some v \<Rightarrow> js_assign key v tgt | None \<Rightarrow> tgt)
          ''__proto__'' = None"
    using Cons.prems by (simp add: map_of_js_assign split: option.splits)
  then show ?case
    using Cons.IH by simp
qed

lemma map_of_for_in_assign:
  "k \<noteq> ''__proto__'' \<Longrightarrow>
   map_of (for_in_assign ks src tgt) k =
     (if k \<in> set ks \<and> map_of src k \<noteq> None then map_of src k else map_of tgt k)"
  by (induction ks arbitrary: tgt)
     (auto simp: map_of_js_assign split: option.splits)

lemma map_of_for_in_own_keys:
  assumes "k \<noteq> ''__proto__''"
  shows "map_of (for_in_assign (map fst src) src tgt) k =
     (case map_of src k of Some v \<Rightarrow> Some v | None \<Rightarrow> map_of tgt k)"
proof (cases "map_of src k")
  case None
  with assms show ?thesis by (simp add: map_of_for_in_assign)
next
  case (Some v)
  then have "k \<in> set (map fst src)"
    using map_of_eq_None_iff [of src k] by auto
  with Some assms show ?thesis by (simp add: map_of_for_in_assign)
qed

lemma distinct_for_in_assign:
  "distinct (map fst tgt) \<Longrightarrow> distinct (map fst (for_in_assign ks src tgt))"
  by (induction ks arbitrary: tgt)
     (auto simp: distinct_js_assign split: option.splits)

text \<open>
  Assigning values the target already holds leaves it as it is, and so does assigning
  \<open>__proto__\<close> to a target without that key.
\<close>

lemma for_in_assign_same:
  assumes "\<And>k v. k \<in> set ks \<Longrightarrow> k \<noteq> ''__proto__'' \<Longrightarrow> map_of src k = Some v
             \<Longrightarrow> map_of tgt k = Some v"
    and "map_of tgt ''__proto__'' = None"
  shows "for_in_assign ks src tgt = tgt"
  using assms
proof (induction ks)
  case Nil
  show ?case by simp
next
  case (Cons key ks)
  have step: "(case map_of src key of Some v \<Rightarrow> js_assign key v tgt | None \<Rightarrow> tgt) = tgt"
  proof (cases "map_of src key")
    case None
    then show ?thesis by simp
  next
    case (Some v)
    show ?thesis
    proof (cases "key = ''__proto__''")
      case True
      with Some Cons.prems(2) show ?thesis by (simp add: js_assign_proto)
    next
      case False
      with Some Cons.prems(1) [of key v] show ?thesis by (simp add: js_assign_same)
    qed
  qed
  have "for_in_assign ks src tgt = tgt"
    using Cons.prems by (intro Cons.IH) auto
  with step show ?case by simp
qed

text \<open>
  Copying an object without the key \<open>__proto__\<close> key by key rebuilds it, order included;
  \<open>pre\<close> is the part already copied.
\<close>

lemma for_in_assign_copy:
  "distinct (map fst (pre @ xs)) \<Longrightarrow> ''__proto__'' \<notin> fst ` set xs \<Longrightarrow>
   for_in_assign (map fst xs) (pre @ xs) pre = pre @ xs"
proof (induction xs arbitrary: pre)
  case Nil
  then show ?case by simp
next
  case (Cons p xs)
  obtain k v where p: "p = (k, v)" by (cases p)
  from Cons.prems(1) p have fresh: "k \<notin> fst ` set pre" by auto
  from Cons.prems(2) p have name: "k \<noteq> ''__proto__''" and rest: "''__proto__'' \<notin> fst ` set xs"
    by auto
  from fresh have "map_of pre k = None"
    by (simp add: map_of_eq_None_iff)
  then have look: "map_of (pre @ (k, v) # xs) k = Some v"
    by (simp add: map_add_def)
  from Cons.prems(1) p have "distinct (map fst ((pre @ [(k, v)]) @ xs))" by simp
  then have "for_in_assign (map fst xs) ((pre @ [(k, v)]) @ xs) (pre @ [(k, v)])
               = (pre @ [(k, v)]) @ xs"
    using rest by (rule Cons.IH)
  with fresh name look p show ?case
    by (simp add: js_assign_new)
qed

section \<open>The gas-limit buffer merge\<close>

lemma distinct_getChainGasLimitBufferConfig:
  "distinct (map fst (getChainGasLimitBufferConfig g c))"
  by (simp add: getChainGasLimitBufferConfig_def distinct_for_in_assign)

lemma getChainGasLimitBufferConfig_no_proto:
  "map_of (getChainGasLimitBufferConfig g c) ''__proto__'' = None"
  by (simp add: getChainGasLimitBufferConfig_def for_in_assign_no_proto)

lemma map_of_getChainGasLimitBufferConfig:
  "k \<noteq> ''__proto__'' \<Longrightarrow>
   map_of (getChainGasLimitBufferConfig g c) k =
     (case map_of c k of Some v \<Rightarrow> Some v | None \<Rightarrow> map_of g k)"
  by (simp add: getChainGasLimitBufferConfig_def map_of_for_in_own_keys split: option.splits)

text \<open>
  C2, as the code has it. A key \<open>__proto__\<close> that the global map alone has is not kept,
  and one that the chain map alone has is not added: the merged object is built by
  assignments, and assigning a number to \<open>__proto__\<close> adds no key.
\<close>

theorem gasLimitBuffer_merge_proto_counterexample:
  "map_of [(''__proto__'', 7), (''default'', 0)] ''__proto__'' = Some (7 :: js_number)
   \<and> map_of ([] :: js_record) ''__proto__'' = None
   \<and> getChainGasLimitBufferConfig [(''__proto__'', 7), (''default'', 0)] [] = [(''default'', 0)]
   \<and> map_of (getChainGasLimitBufferConfig [(''__proto__'', 7), (''default'', 0)] []) ''__proto__''
       = None
   \<and> getChainGasLimitBufferConfig [(''default'', 0)] [(''__proto__'', 3)] = [(''default'', 0)]"
  by (simp add: getChainGasLimitBufferConfig_def js_assign_def)

text \<open>
  C2, amended. For every global map \<open>g\<close> and chain map \<open>c\<close>, the merged gas-limit buffer
  gives a key other than \<open>__proto__\<close> the chain's value when the chain map has the key
  and the global value otherwise (so such keys only in \<open>g\<close> are kept, such keys only in
  \<open>c\<close> are added, and a key in both takes the chain's value), and it never has the key
  \<open>__proto__\<close>; merging the chain map into the merged result again returns it unchanged;
  and global \<open>{default: 0, erc20: 5}\<close> with chain \<open>{erc20: 10, nft: 3}\<close> gives exactly
  \<open>{default: 0, erc20: 10, nft: 3}\<close>.
\<close>

theorem gasLimitBuffer_merge:
  "map_of (getChainGasLimitBufferConfig g c) k =
     (if k = ''__proto__'' then None
      else case map_of c k of Some v \<Rightarrow> Some v | None \<Rightarrow> map_of g k)
   \<and> getChainGasLimitBufferConfig (getChainGasLimitBufferConfig g c) c
       = getChainGasLimitBufferConfig g c
   \<and> getChainGasLimitBufferConfig [(''default'', 0), (''erc20'', 5)] [(''erc20'', 10), (''nft'', 3)]
       = [(''default'', 0), (''erc20'', 10), (''nft'', 3)]"
proof (intro conjI)
  show "map_of (getChainGasLimitBufferConfig g c) k =
     (if k = ''__proto__'' then None
      else case map_of c k of Some v \<Rightarrow> Some v | None \<Rightarrow> map_of g k)"
    by (simp add: map_of_getChainGasLimitBufferConfig getChainGasLimitBufferConfig_no_proto)
next
  let ?m = "getChainGasLimitBufferConfig g c"
  have clean: "''__proto__'' \<notin> fst ` set ?m"
    using getChainGasLimitBufferConfig_no_proto [of g c] map_of_eq_None_iff [of ?m "''__proto__''"]
    by simp
  have copy: "for_in_assign (map fst ?m) ?m [] = ?m"
    using for_in_assign_copy [of "[]" ?m] distinct_getChainGasLimitBufferConfig [of g c] clean
    by simp
  have "for_in_assign (map fst c) c ?m = ?m"
    by (rule for_in_assign_same)
       (simp_all add: map_of_getChainGasLimitBufferConfig getChainGasLimitBufferConfig_no_proto)
  with copy show "getChainGasLimitBufferConfig ?m c = ?m"
    by (simp add: getChainGasLimitBufferConfig_def [of ?m c])
next
  show "getChainGasLimitBufferConfig [(''default'', 0), (''erc20'', 5)] [(''erc20'', 10), (''nft'', 3)]
       = [(''default'', 0), (''erc20'', 10), (''nft'', 3)]"
    by (simp add: getChainGasLimitBufferConfig_def js_assign_def)
qed

theorem gasLimitBuffer_merge_witness:
  "map_of (getChainGasLimitBufferConfig [(''default'', 0), (''erc20'', 5)]
             [(''erc20'', 10), (''nft'', 3)]) ''erc20'' = Some 10
   \<and> map_of (getChainGasLimitBufferConfig [(''default'', 0), (''erc20'', 5)]
             [(''erc20'', 10), (''nft'', 3)]) ''default'' = Some 0
   \<and> map_of (getChainGasLimitBufferConfig [(''default'', 0), (''erc20'', 5)]
             [(''erc20'', 10), (''nft'', 3)]) ''nft'' = Some 3
   \<and> map_of (getChainGasLimitBufferConfig [(''__proto__'', 7), (''default'', 0)]
             [(''__proto__'', 3)]) ''__proto__'' = None"
  using gasLimitBuffer_merge [of "[(''default'', 0), (''erc20'', 5)]"
          "[(''erc20'', 10), (''nft'', 3)]" "''erc20''"]
    gasLimitBuffer_merge [of "[(''default'', 0), (''erc20'', 5)]"
          "[(''erc20'', 10), (''nft'', 3)]" "''default''"]
    gasLimitBuffer_merge [of "[(''default'', 0), (''erc20'', 5)]"
          "[(''erc20'', 10), (''nft'', 3)]" "''nft''"]
    gasLimitBuffer_merge [of "[(''__proto__'', 7), (''default'', 0)]"
          "[(''__proto__'', 3)]" "''__proto__''"]
  by simp

section \<open>Resolution of the global configuration\<close>

lemma js_in_assign: "js_in ''default'' (js_assign ''default'' v obj)"
  by (simp add: js_in_def map_of_js_assign)

lemma js_assign_fresh:
  "\<not> js_in ''default'' obj \<Longrightarrow> js_assign ''default'' v obj = obj @ [(''default'', v)]"
  by (simp add: js_in_def js_assign_new map_of_eq_None_iff)

lemma loadGlobalSubmitterConfig_absent:
  "RelayerConfig.submitter (relayerConfig cs) = None \<Longrightarrow>
   loadGlobalSubmitterConfig cs h = Inl (TypeError ''enabled'')"
  by (simp add: loadGlobalSubmitterConfig_def)

lemma loadGlobalSubmitterConfig_present:
  assumes "RelayerConfig.submitter (relayerConfig cs) = Some raw"
  shows "loadGlobalSubmitterConfig cs h = Inr
     (\<lparr> GlobalSubmitterConfig.enabled =
         coalesce_value (RelayerSubmitterConfig.enabled raw) (JBool True),
       GlobalSubmitterConfig.newOrdersDelay =
         coalesce (RelayerSubmitterConfig.newOrdersDelay raw) NEW_ORDERS_DELAY_DEFAULT,
       GlobalSubmitterConfig.retryInterval =
         coalesce (RelayerSubmitterConfig.retryInterval raw) RETRY_INTERVAL_DEFAULT,
       GlobalSubmitterConfig.processingInterval =
         coalesce (RelayerSubmitterConfig.processingInterval raw) PROCESSING_INTERVAL_DEFAULT,
       GlobalSubmitterConfig.maxTries =
         coalesce (RelayerSubmitterConfig.maxTries raw) MAX_TRIES_DEFAULT,
       GlobalSubmitterConfig.maxPendingTransactions =
         coalesce (RelayerSubmitterConfig.maxPendingTransactions raw) MAX_PENDING_TRANSACTIONS,
       GlobalSubmitterConfig.transactionTimeout =
         coalesce (RelayerSubmitterConfig.transactionTimeout raw) TRANSACTION_TIMEOUT_DEFAULT,
       GlobalSubmitterConfig.gasLimitBuffer =
         (case RelayerSubmitterConfig.gasLimitBuffer raw of
            Some r \<Rightarrow> r | None \<Rightarrow> next_ref h) \<rparr>,
      (case RelayerSubmitterConfig.gasLimitBuffer raw of
         Some r \<Rightarrow>
           if js_in ''default'' (cells h r) then h
           else h\<lparr>cells := (cells h)(r := js_assign ''default'' 0 (cells h r))\<rparr>
       | None \<Rightarrow>
           h\<lparr>cells := (cells h)(next_ref h := [(''default'', 0)]),
             next_ref := Suc (next_ref h)\<rparr>))"
  using assms
  by (simp add: loadGlobalSubmitterConfig_def alloc_def Let_def js_in_def js_assign_def
        split: option.splits)

lemma loadGlobalSubmitterConfig_Inr:
  assumes "loadGlobalSubmitterConfig cs h = Inr (g, h')"
  obtains raw where "RelayerConfig.submitter (relayerConfig cs) = Some raw"
proof (cases "RelayerConfig.submitter (relayerConfig cs)")
  case None
  with assms show ?thesis by (simp add: loadGlobalSubmitterConfig_absent)
next
  case (Some raw)
  then show ?thesis by (rule that)
qed

lemma default_after_loadGlobalSubmitterConfig:
  assumes "loadGlobalSubmitterConfig cs h = Inr (g, h')"
  shows "js_in ''default'' (cells h' (GlobalSubmitterConfig.gasLimitBuffer g))"
proof -
  from assms obtain raw where raw: "RelayerConfig.submitter (relayerConfig cs) = Some raw"
    by (rule loadGlobalSubmitterConfig_Inr)
  from assms [unfolded loadGlobalSubmitterConfig_present [OF raw]] show ?thesis
    by (cases "RelayerSubmitterConfig.gasLimitBuffer raw")
       (auto simp: js_in_assign split: if_splits, simp add: js_in_def)
qed

lemmas default_values =
  NEW_ORDERS_DELAY_DEFAULT_def RETRY_INTERVAL_DEFAULT_def PROCESSING_INTERVAL_DEFAULT_def
  MAX_TRIES_DEFAULT_def MAX_PENDING_TRANSACTIONS_def TRANSACTION_TIMEOUT_DEFAULT_def

text \<open>
  C4, as the code has it. When the relayer configuration has no submitter section at
  all, \<open>loadGlobalSubmitterConfig\<close> does not return: reading \<open>enabled\<close> from the missing
  section throws.
\<close>

theorem loadGlobalSubmitterConfig_absent_section_counterexample:
  "RelayerConfig.submitter (relayerConfig absent_section_configService) = None
   \<and> loadGlobalSubmitterConfig absent_section_configService example_heap
       = Inl (TypeError ''enabled'')"
  by (simp add: loadGlobalSubmitterConfig_def absent_section_configService_def)

text \<open>
  C4, amended. For every submitter section that is an object, whichever of its keys are
  missing, \<open>loadGlobalSubmitterConfig\<close> returns a configuration and raises no error, and
  each scalar the section does not give takes its default: \<open>enabled\<close> true,
  \<open>newOrdersDelay\<close> 0, \<open>retryInterval\<close> 2000, \<open>processingInterval\<close> 100, \<open>maxTries\<close> 3,
  \<open>maxPendingTransactions\<close> 1000, \<open>transactionTimeout\<close> 600000. For the section with no
  key at all the result is the record of the defaults, with a new gas-limit buffer
  \<open>{default: 0}\<close>.
\<close>

theorem loadGlobalSubmitterConfig_defaults:
  assumes present: "RelayerConfig.submitter (relayerConfig cs) = Some raw"
  shows "(\<exists>g h'. loadGlobalSubmitterConfig cs h = Inr (g, h')
      \<and> GlobalSubmitterConfig.enabled g =
           (if nullish (RelayerSubmitterConfig.enabled raw) then JBool True
            else RelayerSubmitterConfig.enabled raw)
      \<and> GlobalSubmitterConfig.newOrdersDelay g =
           (case RelayerSubmitterConfig.newOrdersDelay raw of None \<Rightarrow> 0 | Some v \<Rightarrow> v)
      \<and> GlobalSubmitterConfig.retryInterval g =
           (case RelayerSubmitterConfig.retryInterval raw of None \<Rightarrow> 2000 | Some v \<Rightarrow> v)
      \<and> GlobalSubmitterConfig.processingInterval g =
           (case RelayerSubmitterConfig.processingInterval raw of None \<Rightarrow> 100 | Some v \<Rightarrow> v)
      \<and> GlobalSubmitterConfig.maxTries g =
           (case RelayerSubmitterConfig.maxTries raw of None \<Rightarrow> 3 | Some v \<Rightarrow> v)
      \<and> GlobalSubmitterConfig.maxPendingTransactions g =
           (case RelayerSubmitterConfig.maxPendingTransactions raw of
              None \<Rightarrow> 1000 | Some v \<Rightarrow> v)
      \<and> GlobalSubmitterConfig.transactionTimeout g =
           (case RelayerSubmitterConfig.transactionTimeout raw of
              None \<Rightarrow> 600000 | Some v \<Rightarrow> v))
    \<and> (raw = empty_relayer_submitter \<longrightarrow>
         loadGlobalSubmitterConfig cs h = Inr
           (\<lparr> GlobalSubmitterConfig.enabled = JBool True,
              GlobalSubmitterConfig.newOrdersDelay = 0,
              GlobalSubmitterConfig.retryInterval = 2000,
              GlobalSubmitterConfig.processingInterval = 100,
              GlobalSubmitterConfig.maxTries = 3,
              GlobalSubmitterConfig.maxPendingTransactions = 1000,
              GlobalSubmitterConfig.transactionTimeout = 600000,
              GlobalSubmitterConfig.gasLimitBuffer = next_ref h \<rparr>,
            h\<lparr>cells := (cells h)(next_ref h := [(''default'', 0)]),
              next_ref := Suc (next_ref h)\<rparr>))"
proof (intro conjI impI)
  show "\<exists>g h'. loadGlobalSubmitterConfig cs h = Inr (g, h')
      \<and> GlobalSubmitterConfig.enabled g =
           (if nullish (RelayerSubmitterConfig.enabled raw) then JBool True
            else RelayerSubmitterConfig.enabled raw)
      \<and> GlobalSubmitterConfig.newOrdersDelay g =
           (case RelayerSubmitterConfig.newOrdersDelay raw of None \<Rightarrow> 0 | Some v \<Rightarrow> v)
      \<and> GlobalSubmitterConfig.retryInterval g =
           (case RelayerSubmitterConfig.retryInterval raw of None \<Rightarrow> 2000 | Some v \<Rightarrow> v)
      \<and> GlobalSubmitterConfig.processingInterval g =
           (case RelayerSubmitterConfig.processingInterval raw of None \<Rightarrow> 100 | Some v \<Rightarrow> v)
      \<and> GlobalSubmitterConfig.maxTries g =
           (case RelayerSubmitterConfig.maxTries raw of None \<Rightarrow> 3 | Some v \<Rightarrow> v)
      \<and> GlobalSubmitterConfig.maxPendingTransactions g =
           (case RelayerSubmitterConfig.maxPendingTransactions raw of
              None \<Rightarrow> 1000 | Some v \<Rightarrow> v)
      \<and> GlobalSubmitterConfig.transactionTimeout g =
           (case RelayerSubmitterConfig.transactionTimeout raw of
              None \<Rightarrow> 600000 | Some v \<Rightarrow> v)"
    unfolding loadGlobalSubmitterConfig_present [OF present]
    by (simp add: coalesce_value_def coalesce_def default_values)
next
  assume "raw = empty_relayer_submitter"
  then show "loadGlobalSubmitterConfig cs h = Inr
           (\<lparr> GlobalSubmitterConfig.enabled = JBool True,
              GlobalSubmitterConfig.newOrdersDelay = 0,
              GlobalSubmitterConfig.retryInterval = 2000,
              GlobalSubmitterConfig.processingInterval = 100,
              GlobalSubmitterConfig.maxTries = 3,
              GlobalSubmitterConfig.maxPendingTransactions = 1000,
              GlobalSubmitterConfig.transactionTimeout = 600000,
              GlobalSubmitterConfig.gasLimitBuffer = next_ref h \<rparr>,
            h\<lparr>cells := (cells h)(next_ref h := [(''default'', 0)]),
              next_ref := Suc (next_ref h)\<rparr>)"
    unfolding loadGlobalSubmitterConfig_present [OF present]
    by (simp add: empty_relayer_submitter_def coalesce_value_def coalesce_def default_values)
qed

theorem loadGlobalSubmitterConfig_defaults_witness:
  "RelayerConfig.submitter (relayerConfig (example_configService empty_relayer_submitter [] []))
     = Some empty_relayer_submitter
   \<and> loadGlobalSubmitterConfig (example_configService empty_relayer_submitter [] []) example_heap
     = Inr
     (\<lparr> GlobalSubmitterConfig.enabled = JBool True,
        GlobalSubmitterConfig.newOrdersDelay = 0,
        GlobalSubmitterConfig.retryInterval = 2000,
        GlobalSubmitterConfig.processingInterval = 100,
        GlobalSubmitterConfig.maxTries = 3,
        GlobalSubmitterConfig.maxPendingTransactions = 1000,
        GlobalSubmitterConfig.transactionTimeout = 600000,
        GlobalSubmitterConfig.gasLimitBuffer = 2 \<rparr>,
      example_heap\<lparr>cells := (cells example_heap)(2 := [(''default'', 0)]), next_ref := 3\<rparr>)"
proof -
  have present: "RelayerConfig.submitter
      (relayerConfig (example_configService empty_relayer_submitter [] []))
     = Some empty_relayer_submitter"
    by (simp add: example_configService_def)
  from loadGlobalSubmitterConfig_defaults [OF present, of example_heap] present
  show ?thesis
    by (simp add: example_heap_def)
qed

section \<open>Resolution of a chain's worker configuration\<close>

lemma js_in_getChainGasLimitBufferConfig:
  "js_in k g \<Longrightarrow> k \<noteq> ''__proto__'' \<Longrightarrow> js_in k (getChainGasLimitBufferConfig g c)"
  by (simp add: js_in_def map_of_getChainGasLimitBufferConfig split: option.splits)

lemma loadWorkerConfig_present:
  assumes "loadWorkerConfig cs lo chainConfig g h = Inr w"
  obtains sub where "ChainConfig.submitter chainConfig = Some sub"
  using assms by (auto simp: loadWorkerConfig_def Let_def split: sum.splits option.splits)

lemma loadWorkerConfig_identity:
  assumes "loadWorkerConfig cs lo chainConfig g h = Inr w"
  shows "forEach_incentivesAddress (ambsConfig cs) (ChainConfig.chainId chainConfig) []
           = Inr (incentivesAddresses w)"
    and "SubmitterWorkerData.chainId w = ChainConfig.chainId chainConfig"
  using assms by (auto simp: loadWorkerConfig_def Let_def split: sum.splits option.splits)

lemma loadWorkerConfig_scalar_fields:
  assumes "loadWorkerConfig cs lo chainConfig g h = Inr w"
    and "ChainConfig.submitter chainConfig = Some sub"
  shows "SubmitterWorkerData.newOrdersDelay w =
           coalesce (ChainSubmitterConfig.newOrdersDelay sub)
             (GlobalSubmitterConfig.newOrdersDelay g)"
    and "SubmitterWorkerData.retryInterval w =
           coalesce (ChainSubmitterConfig.retryInterval sub)
             (GlobalSubmitterConfig.retryInterval g)"
    and "SubmitterWorkerData.processingInterval w =
           coalesce (ChainSubmitterConfig.processingInterval sub)
             (GlobalSubmitterConfig.processingInterval g)"
    and "SubmitterWorkerData.maxTries w =
           coalesce (ChainSubmitterConfig.maxTries sub) (GlobalSubmitterConfig.maxTries g)"
    and "SubmitterWorkerData.maxPendingTransactions w =
           coalesce (ChainSubmitterConfig.maxPendingTransactions sub)
             (GlobalSubmitterConfig.maxPendingTransactions g)"
    and "SubmitterWorkerData.transactionTimeout w =
           coalesce (ChainSubmitterConfig.transactionTimeout sub)
             (GlobalSubmitterConfig.transactionTimeout g)"
    and "SubmitterWorkerData.gasLimitBuffer w =
           getChainGasLimitBufferConfig
             (cells h (GlobalSubmitterConfig.gasLimitBuffer g))
             (case ChainSubmitterConfig.gasLimitBuffer sub of
                Some r \<Rightarrow> cells h r
              | None \<Rightarrow> [])"
  using assms by (auto simp: loadWorkerConfig_def Let_def split: sum.splits)

text \<open>The examples, evaluated.\<close>

lemma example_global:
  "loadGlobalSubmitterConfig (example_configService empty_relayer_submitter cs ambs) example_heap =
     Inr (\<lparr> GlobalSubmitterConfig.enabled = JBool True,
        GlobalSubmitterConfig.newOrdersDelay = 0,
        GlobalSubmitterConfig.retryInterval = 2000,
        GlobalSubmitterConfig.processingInterval = 100,
        GlobalSubmitterConfig.maxTries = 3,
        GlobalSubmitterConfig.maxPendingTransactions = 1000,
        GlobalSubmitterConfig.transactionTimeout = 600000,
        GlobalSubmitterConfig.gasLimitBuffer = 2 \<rparr>,
      example_heap\<lparr>cells := (cells example_heap)(2 := [(''default'', 0)]), next_ref := 3\<rparr>)"
  by (simp add: loadGlobalSubmitterConfig_def example_configService_def example_heap_def
        empty_relayer_submitter_def alloc_def Let_def js_in_def js_assign_def
        coalesce_value_def coalesce_def default_values)

lemma example_worker:
  "loadWorkerConfig
     (example_configService empty_relayer_submitter cs [example_amb ''wormhole'' ''0xW'']) []
     (example_chain ''1'' (empty_chain_submitter\<lparr>ChainSubmitterConfig.maxTries := tries\<rparr>))
     \<lparr> GlobalSubmitterConfig.enabled = JBool True,
       GlobalSubmitterConfig.newOrdersDelay = 0,
       GlobalSubmitterConfig.retryInterval = 2000,
       GlobalSubmitterConfig.processingInterval = 100,
       GlobalSubmitterConfig.maxTries = 3,
       GlobalSubmitterConfig.maxPendingTransactions = 1000,
       GlobalSubmitterConfig.transactionTimeout = 600000,
       GlobalSubmitterConfig.gasLimitBuffer = 2 \<rparr>
     (example_heap\<lparr>cells := (cells example_heap)(2 := [(''default'', 0)]), next_ref := 3\<rparr>)
   = Inr (example_workerData (case tries of None \<Rightarrow> 3 | Some v \<Rightarrow> v))"
  by (simp add: loadWorkerConfig_def example_configService_def example_chain_def
        empty_chain_submitter_def example_amb_def example_workerData_def Let_def
        js_assign_def map_set_def coalesce_def getChainGasLimitBufferConfig_def)

text \<open>
  C1, as the code has it. For a chain whose configuration has no submitter section at
  all, \<open>loadWorkerConfig\<close> does not resolve the fields to the global values: reading
  \<open>newOrdersDelay\<close> from the missing section throws, although every adapter has an
  address for the chain.
\<close>

theorem loadWorkerConfig_absent_section_counterexample:
  "ChainConfig.submitter (absent_section_chain ''1'') = None
   \<and> forEach_incentivesAddress [example_amb ''wormhole'' ''0xW''] ''1'' []
       = Inr [(''wormhole'', ''0xW'')]
   \<and> loadGlobalSubmitterConfig
       (example_configService empty_relayer_submitter [] [example_amb ''wormhole'' ''0xW''])
       example_heap
     = Inr (default_global_config 2, resolved_example_heap)
   \<and> loadWorkerConfig
       (example_configService empty_relayer_submitter [] [example_amb ''wormhole'' ''0xW'']) []
       (absent_section_chain ''1'') (default_global_config 2) resolved_example_heap
     = Inl (TypeError ''newOrdersDelay'')"
proof (intro conjI)
  show "loadGlobalSubmitterConfig
       (example_configService empty_relayer_submitter [] [example_amb ''wormhole'' ''0xW''])
       example_heap
     = Inr (default_global_config 2, resolved_example_heap)"
    by (simp add: example_global default_global_config_def resolved_example_heap_def)
qed (simp_all add: loadWorkerConfig_def absent_section_chain_def example_configService_def
       example_amb_def map_set_def)

text \<open>
  C1, amended. For every chain whose worker data is built, the chain's submitter section
  is an object, and each of \<open>newOrdersDelay\<close>, \<open>retryInterval\<close>, \<open>processingInterval\<close>,
  \<open>maxTries\<close>, \<open>maxPendingTransactions\<close> and \<open>transactionTimeout\<close> is the value of that
  section when the section has one and the global value otherwise. When the section is
  empty every one of them is the global value, and the gas-limit buffer has the global
  buffer's entry for every key other than \<open>__proto__\<close>. When the relayer section leaves \<open>maxTries\<close> out, a chain section with
  \<open>maxTries = 5\<close> resolves it to 5 and a chain section without it resolves it to 3.
\<close>

theorem loadWorkerConfig_scalar_merge:
  assumes built: "loadWorkerConfig cs lo chainConfig g h = Inr w"
  shows "\<exists>override. ChainConfig.submitter chainConfig = Some override
    \<and> SubmitterWorkerData.newOrdersDelay w =
           (case ChainSubmitterConfig.newOrdersDelay override of
              Some v \<Rightarrow> v | None \<Rightarrow> GlobalSubmitterConfig.newOrdersDelay g)
    \<and> SubmitterWorkerData.retryInterval w =
           (case ChainSubmitterConfig.retryInterval override of
              Some v \<Rightarrow> v | None \<Rightarrow> GlobalSubmitterConfig.retryInterval g)
    \<and> SubmitterWorkerData.processingInterval w =
           (case ChainSubmitterConfig.processingInterval override of
              Some v \<Rightarrow> v | None \<Rightarrow> GlobalSubmitterConfig.processingInterval g)
    \<and> SubmitterWorkerData.maxTries w =
           (case ChainSubmitterConfig.maxTries override of
              Some v \<Rightarrow> v | None \<Rightarrow> GlobalSubmitterConfig.maxTries g)
    \<and> SubmitterWorkerData.maxPendingTransactions w =
           (case ChainSubmitterConfig.maxPendingTransactions override of
              Some v \<Rightarrow> v | None \<Rightarrow> GlobalSubmitterConfig.maxPendingTransactions g)
    \<and> SubmitterWorkerData.transactionTimeout w =
           (case ChainSubmitterConfig.transactionTimeout override of
              Some v \<Rightarrow> v | None \<Rightarrow> GlobalSubmitterConfig.transactionTimeout g)
    \<and> (override = empty_chain_submitter \<longrightarrow>
          SubmitterWorkerData.newOrdersDelay w = GlobalSubmitterConfig.newOrdersDelay g
        \<and> SubmitterWorkerData.retryInterval w = GlobalSubmitterConfig.retryInterval g
        \<and> SubmitterWorkerData.processingInterval w = GlobalSubmitterConfig.processingInterval g
        \<and> SubmitterWorkerData.maxTries w = GlobalSubmitterConfig.maxTries g
        \<and> SubmitterWorkerData.maxPendingTransactions w
            = GlobalSubmitterConfig.maxPendingTransactions g
        \<and> SubmitterWorkerData.transactionTimeout w = GlobalSubmitterConfig.transactionTimeout g
        \<and> (\<forall>k. k \<noteq> ''__proto__'' \<longrightarrow>
              map_of (SubmitterWorkerData.gasLimitBuffer w) k
                = map_of (cells h (GlobalSubmitterConfig.gasLimitBuffer g)) k))
    \<and> (loadGlobalSubmitterConfig cs h0 = Inr (g, h)
        \<and> RelayerConfig.submitter (relayerConfig cs) = Some raw
        \<and> RelayerSubmitterConfig.maxTries raw = None \<longrightarrow>
          (ChainSubmitterConfig.maxTries override = Some 5 \<longrightarrow> SubmitterWorkerData.maxTries w = 5)
        \<and> (ChainSubmitterConfig.maxTries override = None \<longrightarrow> SubmitterWorkerData.maxTries w = 3))"
proof -
  from built obtain override where present: "ChainConfig.submitter chainConfig = Some override"
    by (rule loadWorkerConfig_present)
  note fields = loadWorkerConfig_scalar_fields [OF built present]
  have merge: "SubmitterWorkerData.newOrdersDelay w =
           (case ChainSubmitterConfig.newOrdersDelay override of
              Some v \<Rightarrow> v | None \<Rightarrow> GlobalSubmitterConfig.newOrdersDelay g)"
      "SubmitterWorkerData.retryInterval w =
           (case ChainSubmitterConfig.retryInterval override of
              Some v \<Rightarrow> v | None \<Rightarrow> GlobalSubmitterConfig.retryInterval g)"
      "SubmitterWorkerData.processingInterval w =
           (case ChainSubmitterConfig.processingInterval override of
              Some v \<Rightarrow> v | None \<Rightarrow> GlobalSubmitterConfig.processingInterval g)"
      "SubmitterWorkerData.maxTries w =
           (case ChainSubmitterConfig.maxTries override of
              Some v \<Rightarrow> v | None \<Rightarrow> GlobalSubmitterConfig.maxTries g)"
      "SubmitterWorkerData.maxPendingTransactions w =
           (case ChainSubmitterConfig.maxPendingTransactions override of
              Some v \<Rightarrow> v | None \<Rightarrow> GlobalSubmitterConfig.maxPendingTransactions g)"
      "SubmitterWorkerData.transactionTimeout w =
           (case ChainSubmitterConfig.transactionTimeout override of
              Some v \<Rightarrow> v | None \<Rightarrow> GlobalSubmitterConfig.transactionTimeout g)"
    by (simp_all add: fields(1-6) coalesce_def split: option.splits)
  have buffer: "map_of (SubmitterWorkerData.gasLimitBuffer w) k
            = map_of (cells h (GlobalSubmitterConfig.gasLimitBuffer g)) k"
    if "override = empty_chain_submitter" and "k \<noteq> ''__proto__''" for k
  proof -
    from that(1) have "ChainSubmitterConfig.gasLimitBuffer override = None"
      by (simp add: empty_chain_submitter_def)
    with that(2) show ?thesis
      by (simp add: fields(7) map_of_getChainGasLimitBufferConfig)
  qed
  have inherit: "SubmitterWorkerData.newOrdersDelay w = GlobalSubmitterConfig.newOrdersDelay g
        \<and> SubmitterWorkerData.retryInterval w = GlobalSubmitterConfig.retryInterval g
        \<and> SubmitterWorkerData.processingInterval w = GlobalSubmitterConfig.processingInterval g
        \<and> SubmitterWorkerData.maxTries w = GlobalSubmitterConfig.maxTries g
        \<and> SubmitterWorkerData.maxPendingTransactions w
            = GlobalSubmitterConfig.maxPendingTransactions g
        \<and> SubmitterWorkerData.transactionTimeout w = GlobalSubmitterConfig.transactionTimeout g"
    if "override = empty_chain_submitter"
    using that by (simp add: merge empty_chain_submitter_def)
  have scenario: "(ChainSubmitterConfig.maxTries override = Some 5 \<longrightarrow>
                     SubmitterWorkerData.maxTries w = 5)
        \<and> (ChainSubmitterConfig.maxTries override = None \<longrightarrow> SubmitterWorkerData.maxTries w = 3)"
    if "loadGlobalSubmitterConfig cs h0 = Inr (g, h)"
      and "RelayerConfig.submitter (relayerConfig cs) = Some raw"
      and "RelayerSubmitterConfig.maxTries raw = None"
  proof -
    from that(1) [unfolded loadGlobalSubmitterConfig_present [OF that(2)]] that(3)
    have "GlobalSubmitterConfig.maxTries g = 3"
      by (auto simp: coalesce_def MAX_TRIES_DEFAULT_def)
    then show ?thesis by (simp add: merge)
  qed
  from merge buffer inherit scenario
  have all: "SubmitterWorkerData.newOrdersDelay w =
           (case ChainSubmitterConfig.newOrdersDelay override of
              Some v \<Rightarrow> v | None \<Rightarrow> GlobalSubmitterConfig.newOrdersDelay g)
    \<and> SubmitterWorkerData.retryInterval w =
           (case ChainSubmitterConfig.retryInterval override of
              Some v \<Rightarrow> v | None \<Rightarrow> GlobalSubmitterConfig.retryInterval g)
    \<and> SubmitterWorkerData.processingInterval w =
           (case ChainSubmitterConfig.processingInterval override of
              Some v \<Rightarrow> v | None \<Rightarrow> GlobalSubmitterConfig.processingInterval g)
    \<and> SubmitterWorkerData.maxTries w =
           (case ChainSubmitterConfig.maxTries override of
              Some v \<Rightarrow> v | None \<Rightarrow> GlobalSubmitterConfig.maxTries g)
    \<and> SubmitterWorkerData.maxPendingTransactions w =
           (case ChainSubmitterConfig.maxPendingTransactions override of
              Some v \<Rightarrow> v | None \<Rightarrow> GlobalSubmitterConfig.maxPendingTransactions g)
    \<and> SubmitterWorkerData.transactionTimeout w =
           (case ChainSubmitterConfig.transactionTimeout override of
              Some v \<Rightarrow> v | None \<Rightarrow> GlobalSubmitterConfig.transactionTimeout g)
    \<and> (override = empty_chain_submitter \<longrightarrow>
          SubmitterWorkerData.newOrdersDelay w = GlobalSubmitterConfig.newOrdersDelay g
        \<and> SubmitterWorkerData.retryInterval w = GlobalSubmitterConfig.retryInterval g
        \<and> SubmitterWorkerData.processingInterval w = GlobalSubmitterConfig.processingInterval g
        \<and> SubmitterWorkerData.maxTries w = GlobalSubmitterConfig.maxTries g
        \<and> SubmitterWorkerData.maxPendingTransactions w
            = GlobalSubmitterConfig.maxPendingTransactions g
        \<and> SubmitterWorkerData.transactionTimeout w = GlobalSubmitterConfig.transactionTimeout g
        \<and> (\<forall>k. k \<noteq> ''__proto__'' \<longrightarrow>
              map_of (SubmitterWorkerData.gasLimitBuffer w) k
                = map_of (cells h (GlobalSubmitterConfig.gasLimitBuffer g)) k))
    \<and> (loadGlobalSubmitterConfig cs h0 = Inr (g, h)
        \<and> RelayerConfig.submitter (relayerConfig cs) = Some raw
        \<and> RelayerSubmitterConfig.maxTries raw = None \<longrightarrow>
          (ChainSubmitterConfig.maxTries override = Some 5 \<longrightarrow> SubmitterWorkerData.maxTries w = 5)
        \<and> (ChainSubmitterConfig.maxTries override = None \<longrightarrow> SubmitterWorkerData.maxTries w = 3))"
    by blast
  show ?thesis
    by (rule exI [of _ override], rule conjI [OF present all])
qed

theorem loadWorkerConfig_scalar_merge_witness:
  "loadGlobalSubmitterConfig
     (example_configService empty_relayer_submitter [] [example_amb ''wormhole'' ''0xW''])
     example_heap
   = Inr (default_global_config 2, resolved_example_heap)
   \<and> RelayerConfig.submitter (relayerConfig
        (example_configService empty_relayer_submitter [] [example_amb ''wormhole'' ''0xW'']))
       = Some empty_relayer_submitter
   \<and> RelayerSubmitterConfig.maxTries empty_relayer_submitter = None
   \<and> loadWorkerConfig
     (example_configService empty_relayer_submitter [] [example_amb ''wormhole'' ''0xW'']) []
     (example_chain ''1'' (empty_chain_submitter\<lparr>ChainSubmitterConfig.maxTries := Some 5\<rparr>))
     (default_global_config 2) resolved_example_heap
     = Inr (example_workerData 5)
   \<and> SubmitterWorkerData.maxTries (example_workerData 5) = 5
   \<and> loadWorkerConfig
     (example_configService empty_relayer_submitter [] [example_amb ''wormhole'' ''0xW'']) []
     (example_chain ''1'' (empty_chain_submitter\<lparr>ChainSubmitterConfig.maxTries := None\<rparr>))
     (default_global_config 2) resolved_example_heap
     = Inr (example_workerData 3)
   \<and> SubmitterWorkerData.maxTries (example_workerData 3) = 3"
proof -
  let ?cs = "example_configService empty_relayer_submitter [] [example_amb ''wormhole'' ''0xW'']"
  let ?g = "default_global_config 2"
  let ?h = "resolved_example_heap"
  let ?five = "empty_chain_submitter\<lparr>ChainSubmitterConfig.maxTries := Some 5\<rparr>"
  let ?bare = "empty_chain_submitter\<lparr>ChainSubmitterConfig.maxTries := None\<rparr>"
  have global: "loadGlobalSubmitterConfig ?cs example_heap = Inr (?g, ?h)"
    by (simp add: example_global default_global_config_def resolved_example_heap_def)
  have b5: "loadWorkerConfig ?cs [] (example_chain ''1'' ?five) ?g ?h = Inr (example_workerData 5)"
    using example_worker [of "[]" "Some 5"]
    by (simp add: default_global_config_def resolved_example_heap_def)
  have b3: "loadWorkerConfig ?cs [] (example_chain ''1'' ?bare) ?g ?h = Inr (example_workerData 3)"
    using example_worker [of "[]" None]
    by (simp add: default_global_config_def resolved_example_heap_def)
  have s5: "ChainConfig.submitter (example_chain ''1'' ?five) = Some ?five"
    and s3: "ChainConfig.submitter (example_chain ''1'' ?bare) = Some ?bare"
    by (simp_all add: example_chain_def)
  have raw: "RelayerConfig.submitter (relayerConfig ?cs) = Some empty_relayer_submitter"
    by (simp add: example_configService_def)
  have unset: "RelayerSubmitterConfig.maxTries empty_relayer_submitter = None"
    by (simp add: empty_relayer_submitter_def)
  have five: "SubmitterWorkerData.maxTries (example_workerData 5) = 5"
  proof -
    from loadWorkerConfig_scalar_merge [OF b5, of example_heap empty_relayer_submitter]
    obtain override where "ChainConfig.submitter (example_chain ''1'' ?five) = Some override"
      and "loadGlobalSubmitterConfig ?cs example_heap = Inr (?g, ?h)
        \<and> RelayerConfig.submitter (relayerConfig ?cs) = Some empty_relayer_submitter
        \<and> RelayerSubmitterConfig.maxTries empty_relayer_submitter = None \<longrightarrow>
          (ChainSubmitterConfig.maxTries override = Some 5 \<longrightarrow>
             SubmitterWorkerData.maxTries (example_workerData 5) = 5)
        \<and> (ChainSubmitterConfig.maxTries override = None \<longrightarrow>
             SubmitterWorkerData.maxTries (example_workerData 5) = 3)"
      by (elim exE conjE)
    with s5 global raw unset show ?thesis by simp
  qed
  have three: "SubmitterWorkerData.maxTries (example_workerData 3) = 3"
  proof -
    from loadWorkerConfig_scalar_merge [OF b3, of example_heap empty_relayer_submitter]
    obtain override where "ChainConfig.submitter (example_chain ''1'' ?bare) = Some override"
      and "loadGlobalSubmitterConfig ?cs example_heap = Inr (?g, ?h)
        \<and> RelayerConfig.submitter (relayerConfig ?cs) = Some empty_relayer_submitter
        \<and> RelayerSubmitterConfig.maxTries empty_relayer_submitter = None \<longrightarrow>
          (ChainSubmitterConfig.maxTries override = Some 5 \<longrightarrow>
             SubmitterWorkerData.maxTries (example_workerData 3) = 5)
        \<and> (ChainSubmitterConfig.maxTries override = None \<longrightarrow>
             SubmitterWorkerData.maxTries (example_workerData 3) = 3)"
      by (elim exE conjE)
    with s3 global raw unset show ?thesis by simp
  qed
  show ?thesis
    by (intro conjI) (rule global raw unset b5 five b3 three)+
qed

section \<open>The default key of the gas-limit buffer\<close>

lemma example_global_buffer:
  "loadGlobalSubmitterConfig
     (example_configService
        (empty_relayer_submitter\<lparr>RelayerSubmitterConfig.gasLimitBuffer := Some 0\<rparr>) cs ambs)
     example_heap =
     Inr (\<lparr> GlobalSubmitterConfig.enabled = JBool True,
        GlobalSubmitterConfig.newOrdersDelay = 0,
        GlobalSubmitterConfig.retryInterval = 2000,
        GlobalSubmitterConfig.processingInterval = 100,
        GlobalSubmitterConfig.maxTries = 3,
        GlobalSubmitterConfig.maxPendingTransactions = 1000,
        GlobalSubmitterConfig.transactionTimeout = 600000,
        GlobalSubmitterConfig.gasLimitBuffer = 0 \<rparr>,
      example_heap\<lparr>cells := (cells example_heap)(0 := [(''erc20'', 5), (''default'', 0)])\<rparr>)"
  by (simp add: loadGlobalSubmitterConfig_def example_configService_def example_heap_def
        empty_relayer_submitter_def alloc_def Let_def js_in_def js_assign_def
        coalesce_value_def coalesce_def default_values)

lemma loadWorkerConfig_keeps_key:
  assumes "loadWorkerConfig cs lo chainConfig g h = Inr w"
    and "js_in k (cells h (GlobalSubmitterConfig.gasLimitBuffer g))"
    and "k \<noteq> ''__proto__''"
  shows "js_in k (SubmitterWorkerData.gasLimitBuffer w)"
proof -
  from assms(1) obtain sub where "ChainConfig.submitter chainConfig = Some sub"
    by (rule loadWorkerConfig_present)
  from loadWorkerConfig_scalar_fields(7) [OF assms(1) this] assms(2,3) show ?thesis
    by (simp add: js_in_getChainGasLimitBufferConfig)
qed

text \<open>
  C6. After \<open>loadGlobalSubmitterConfig\<close> the global gas-limit buffer has the key
  \<open>default\<close>: a supplied buffer without it gets \<open>default = 0\<close> added, and when the
  section gives no buffer the resolved one is exactly \<open>{default: 0}\<close>. Every worker
  configuration built from that global configuration has the key \<open>default\<close> in its
  merged buffer.
\<close>

theorem gasLimitBuffer_default_key:
  assumes resolved: "loadGlobalSubmitterConfig cs h = Inr (g, h')"
    and present: "RelayerConfig.submitter (relayerConfig cs) = Some raw"
  shows "js_in ''default'' (cells h' (GlobalSubmitterConfig.gasLimitBuffer g))
    \<and> (\<forall>r. RelayerSubmitterConfig.gasLimitBuffer raw = Some r
              \<and> \<not> js_in ''default'' (cells h r) \<longrightarrow>
          GlobalSubmitterConfig.gasLimitBuffer g = r
          \<and> cells h' r = cells h r @ [(''default'', 0)])
    \<and> (RelayerSubmitterConfig.gasLimitBuffer raw = None \<longrightarrow>
          cells h' (GlobalSubmitterConfig.gasLimitBuffer g) = [(''default'', 0)])
    \<and> (\<forall>lo chainConfig w.
          loadWorkerConfig cs lo chainConfig g h' = Inr w \<longrightarrow>
          js_in ''default'' (SubmitterWorkerData.gasLimitBuffer w))"
proof (intro conjI allI impI)
  note result = resolved [unfolded loadGlobalSubmitterConfig_present [OF present]]
  show has: "js_in ''default'' (cells h' (GlobalSubmitterConfig.gasLimitBuffer g))"
    using resolved by (rule default_after_loadGlobalSubmitterConfig)
  {
    fix lo chainConfig w
    assume "loadWorkerConfig cs lo chainConfig g h' = Inr w"
    then show "js_in ''default'' (SubmitterWorkerData.gasLimitBuffer w)"
      using has by (rule loadWorkerConfig_keeps_key) simp
  }
  {
    fix r
    assume a: "RelayerSubmitterConfig.gasLimitBuffer raw = Some r
               \<and> \<not> js_in ''default'' (cells h r)"
    with result show "GlobalSubmitterConfig.gasLimitBuffer g = r"
      by auto
    from a result show "cells h' r = cells h r @ [(''default'', 0)]"
      by (auto simp: js_assign_fresh)
  }
  {
    assume "RelayerSubmitterConfig.gasLimitBuffer raw = None"
    with result show "cells h' (GlobalSubmitterConfig.gasLimitBuffer g) = [(''default'', 0)]"
      by auto
  }
qed

theorem gasLimitBuffer_default_key_witness:
  "loadGlobalSubmitterConfig
     (example_configService
        (empty_relayer_submitter\<lparr>RelayerSubmitterConfig.gasLimitBuffer := Some 0\<rparr>) [] [])
     example_heap
   = Inr (\<lparr> GlobalSubmitterConfig.enabled = JBool True,
        GlobalSubmitterConfig.newOrdersDelay = 0,
        GlobalSubmitterConfig.retryInterval = 2000,
        GlobalSubmitterConfig.processingInterval = 100,
        GlobalSubmitterConfig.maxTries = 3,
        GlobalSubmitterConfig.maxPendingTransactions = 1000,
        GlobalSubmitterConfig.transactionTimeout = 600000,
        GlobalSubmitterConfig.gasLimitBuffer = 0 \<rparr>,
      example_heap\<lparr>cells := (cells example_heap)(0 := [(''erc20'', 5), (''default'', 0)])\<rparr>)
   \<and> RelayerConfig.submitter (relayerConfig
      (example_configService
         (empty_relayer_submitter\<lparr>RelayerSubmitterConfig.gasLimitBuffer := Some 0\<rparr>) [] []))
     = Some (empty_relayer_submitter\<lparr>RelayerSubmitterConfig.gasLimitBuffer := Some 0\<rparr>)
   \<and> \<not> js_in ''default'' (cells example_heap 0)
   \<and> js_in ''default'' ([(''erc20'', 5), (''default'', 0)] :: js_record)
   \<and> loadWorkerConfig
        (example_configService
           (empty_relayer_submitter\<lparr>RelayerSubmitterConfig.gasLimitBuffer := Some 0\<rparr>) [] []) []
        (example_chain ''1''
           (empty_chain_submitter\<lparr>ChainSubmitterConfig.gasLimitBuffer := Some 1\<rparr>))
        \<lparr> GlobalSubmitterConfig.enabled = JBool True,
          GlobalSubmitterConfig.newOrdersDelay = 0,
          GlobalSubmitterConfig.retryInterval = 2000,
          GlobalSubmitterConfig.processingInterval = 100,
          GlobalSubmitterConfig.maxTries = 3,
          GlobalSubmitterConfig.maxPendingTransactions = 1000,
          GlobalSubmitterConfig.transactionTimeout = 600000,
          GlobalSubmitterConfig.gasLimitBuffer = 0 \<rparr>
        (example_heap\<lparr>cells := (cells example_heap)(0 := [(''erc20'', 5), (''default'', 0)])\<rparr>)
      = Inr ((example_workerData 3)
               \<lparr>incentivesAddresses := [],
                SubmitterWorkerData.gasLimitBuffer :=
                  [(''erc20'', 10), (''default'', 0), (''nft'', 3)]\<rparr>)
   \<and> js_in ''default'' ([(''erc20'', 10), (''default'', 0), (''nft'', 3)] :: js_record)"
proof -
  let ?raw = "empty_relayer_submitter\<lparr>RelayerSubmitterConfig.gasLimitBuffer := Some 0\<rparr>"
  let ?cs = "example_configService ?raw [] []"
  let ?g = "\<lparr> GlobalSubmitterConfig.enabled = JBool True,
          GlobalSubmitterConfig.newOrdersDelay = 0,
          GlobalSubmitterConfig.retryInterval = 2000,
          GlobalSubmitterConfig.processingInterval = 100,
          GlobalSubmitterConfig.maxTries = 3,
          GlobalSubmitterConfig.maxPendingTransactions = 1000,
          GlobalSubmitterConfig.transactionTimeout = 600000,
          GlobalSubmitterConfig.gasLimitBuffer = 0 \<rparr>"
  let ?h = "example_heap\<lparr>cells := (cells example_heap)(0 := [(''erc20'', 5), (''default'', 0)])\<rparr>"
  let ?chain = "example_chain ''1''
           (empty_chain_submitter\<lparr>ChainSubmitterConfig.gasLimitBuffer := Some 1\<rparr>)"
  let ?w = "(example_workerData 3)
               \<lparr>incentivesAddresses := [],
                SubmitterWorkerData.gasLimitBuffer :=
                  [(''erc20'', 10), (''default'', 0), (''nft'', 3)]\<rparr>"
  have resolved: "loadGlobalSubmitterConfig ?cs example_heap = Inr (?g, ?h)"
    by (rule example_global_buffer)
  have present: "RelayerConfig.submitter (relayerConfig ?cs) = Some ?raw"
    by (simp add: example_configService_def)
  have lacks: "\<not> js_in ''default'' (cells example_heap 0)"
    by (simp add: js_in_def example_heap_def)
  have built: "loadWorkerConfig ?cs [] ?chain ?g ?h = Inr ?w"
    by (simp add: loadWorkerConfig_def example_configService_def
          example_chain_def empty_chain_submitter_def example_workerData_def Let_def
          js_assign_def coalesce_def getChainGasLimitBufferConfig_def example_heap_def)
  note key = gasLimitBuffer_default_key [OF resolved present]
  from key have "js_in ''default'' (cells ?h (GlobalSubmitterConfig.gasLimitBuffer ?g))"
    by blast
  then have added: "js_in ''default'' ([(''erc20'', 5), (''default'', 0)] :: js_record)"
    by simp
  from key built have "js_in ''default'' (SubmitterWorkerData.gasLimitBuffer ?w)"
    by blast
  then have merged: "js_in ''default'' ([(''erc20'', 10), (''default'', 0), (''nft'', 3)] :: js_record)"
    by (simp add: example_workerData_def)
  show ?thesis
    by (intro conjI) (rule resolved present lacks added built merged)+
qed

text \<open>
  C9. When the relayer's submitter section supplies a gas-limit buffer without the key
  \<open>default\<close>, \<open>loadGlobalSubmitterConfig\<close> writes \<open>default = 0\<close> into that very object
  and returns a reference to it: no new object is made, no other object changes, and
  the supplied object is not what it was before the call.
\<close>

theorem loadGlobalSubmitterConfig_mutates_supplied_buffer:
  assumes present: "RelayerConfig.submitter (relayerConfig cs) = Some raw"
    and supplied: "RelayerSubmitterConfig.gasLimitBuffer raw = Some r"
    and lacks: "\<not> js_in ''default'' (cells h r)"
  shows "\<exists>g h'. loadGlobalSubmitterConfig cs h = Inr (g, h')
    \<and> GlobalSubmitterConfig.gasLimitBuffer g = r
    \<and> cells h' r = cells h r @ [(''default'', 0)]
    \<and> cells h' r \<noteq> cells h r
    \<and> next_ref h' = next_ref h
    \<and> (\<forall>r'. r' \<noteq> r \<longrightarrow> cells h' r' = cells h r')"
  unfolding loadGlobalSubmitterConfig_present [OF present]
  using supplied lacks by (simp add: js_assign_fresh)

theorem loadGlobalSubmitterConfig_mutates_supplied_buffer_witness:
  "RelayerConfig.submitter (relayerConfig
      (example_configService
         (empty_relayer_submitter\<lparr>RelayerSubmitterConfig.gasLimitBuffer := Some 0\<rparr>) [] []))
     = Some (empty_relayer_submitter\<lparr>RelayerSubmitterConfig.gasLimitBuffer := Some 0\<rparr>)
   \<and> RelayerSubmitterConfig.gasLimitBuffer
        (empty_relayer_submitter\<lparr>RelayerSubmitterConfig.gasLimitBuffer := Some 0\<rparr>) = Some 0
   \<and> cells example_heap 0 = [(''erc20'', 5)]
   \<and> \<not> js_in ''default'' (cells example_heap 0)
   \<and> loadGlobalSubmitterConfig
       (example_configService
          (empty_relayer_submitter\<lparr>RelayerSubmitterConfig.gasLimitBuffer := Some 0\<rparr>) [] [])
       example_heap
     = Inr (\<lparr> GlobalSubmitterConfig.enabled = JBool True,
        GlobalSubmitterConfig.newOrdersDelay = 0,
        GlobalSubmitterConfig.retryInterval = 2000,
        GlobalSubmitterConfig.processingInterval = 100,
        GlobalSubmitterConfig.maxTries = 3,
        GlobalSubmitterConfig.maxPendingTransactions = 1000,
        GlobalSubmitterConfig.transactionTimeout = 600000,
        GlobalSubmitterConfig.gasLimitBuffer = 0 \<rparr>,
      example_heap\<lparr>cells := (cells example_heap)(0 := [(''erc20'', 5), (''default'', 0)])\<rparr>)"
proof -
  let ?raw = "empty_relayer_submitter\<lparr>RelayerSubmitterConfig.gasLimitBuffer := Some 0\<rparr>"
  let ?cs = "example_configService ?raw [] []"
  have present: "RelayerConfig.submitter (relayerConfig ?cs) = Some ?raw"
    by (simp add: example_configService_def)
  have supplied: "RelayerSubmitterConfig.gasLimitBuffer ?raw = Some 0"
    by simp
  have cell: "cells example_heap 0 = [(''erc20'', 5)]"
    by (simp add: example_heap_def)
  have lacks: "\<not> js_in ''default'' (cells example_heap 0)"
    by (simp add: js_in_def cell)
  from loadGlobalSubmitterConfig_mutates_supplied_buffer [OF present supplied lacks]
  obtain g h' where run: "loadGlobalSubmitterConfig ?cs example_heap = Inr (g, h')"
    and same: "GlobalSubmitterConfig.gasLimitBuffer g = 0"
    and grown: "cells h' 0 = cells example_heap 0 @ [(''default'', 0)]"
    by blast
  from run same grown have result: "loadGlobalSubmitterConfig ?cs example_heap
     = Inr (\<lparr> GlobalSubmitterConfig.enabled = JBool True,
        GlobalSubmitterConfig.newOrdersDelay = 0,
        GlobalSubmitterConfig.retryInterval = 2000,
        GlobalSubmitterConfig.processingInterval = 100,
        GlobalSubmitterConfig.maxTries = 3,
        GlobalSubmitterConfig.maxPendingTransactions = 1000,
        GlobalSubmitterConfig.transactionTimeout = 600000,
        GlobalSubmitterConfig.gasLimitBuffer = 0 \<rparr>,
      example_heap\<lparr>cells := (cells example_heap)(0 := [(''erc20'', 5), (''default'', 0)])\<rparr>)"
    by (simp add: example_global_buffer)
  show ?thesis
    by (intro conjI) (rule present supplied cell lacks result)+
qed

section \<open>The incentives addresses of a chain\<close>

lemma forEach_incentivesAddress_append:
  "forEach_incentivesAddress (xs @ ys) cid acc =
     (case forEach_incentivesAddress xs cid acc of
        Inl e \<Rightarrow> Inl e
      | Inr m \<Rightarrow> forEach_incentivesAddress ys cid m)"
  by (induction xs arbitrary: acc) (auto split: sum.splits)

lemma forEach_incentivesAddress_keys:
  "forEach_incentivesAddress ambs cid acc = Inr m \<Longrightarrow>
   fst ` set m = fst ` set acc \<union> name ` set ambs"
proof (induction ambs arbitrary: acc)
  case Nil
  then show ?case by simp
next
  case (Cons amb ambs)
  then obtain address where
    "forEach_incentivesAddress ambs cid (map_set (name amb) address acc) = Inr m"
    by (auto split: sum.splits)
  then have "fst ` set m = fst ` set (map_set (name amb) address acc) \<union> name ` set ambs"
    by (rule Cons.IH)
  then show ?case
    by (simp add: map_set_def dom_update)
qed

lemma forEach_incentivesAddress_distinct:
  "forEach_incentivesAddress ambs cid acc = Inr m \<Longrightarrow> distinct (map fst acc) \<Longrightarrow>
   distinct (map fst m)"
proof (induction ambs arbitrary: acc)
  case Nil
  then show ?case by simp
next
  case (Cons amb ambs)
  from Cons.prems(1) obtain address where
    rest: "forEach_incentivesAddress ambs cid (map_set (name amb) address acc) = Inr m"
    by (auto split: sum.splits)
  from Cons.prems(2) have "distinct (map fst (map_set (name amb) address acc))"
    by (simp add: map_set_def distinct_update)
  with rest show ?case by (rule Cons.IH)
qed

text \<open>A name that no adapter of the walk carries keeps the entry it had.\<close>

lemma forEach_incentivesAddress_other:
  "forEach_incentivesAddress ambs cid acc = Inr m \<Longrightarrow> n \<notin> name ` set ambs \<Longrightarrow>
   map_of m n = map_of acc n"
proof (induction ambs arbitrary: acc)
  case Nil
  then show ?case by simp
next
  case (Cons amb ambs)
  from Cons.prems(1) obtain address where
    rest: "forEach_incentivesAddress ambs cid (map_set (name amb) address acc) = Inr m"
    by (auto split: sum.splits)
  from Cons.prems(2) have "n \<notin> name ` set ambs" and "n \<noteq> name amb" by auto
  with Cons.IH [OF rest] show ?case
    by (simp add: map_set_def update_conv')
qed

text \<open>The entry of a name is the address of the last adapter carrying it.\<close>

lemma forEach_incentivesAddress_last:
  assumes "forEach_incentivesAddress (pre @ amb # post) cid acc = Inr m"
    and "name amb \<notin> name ` set post"
  shows "map_option Inr (map_of m (name amb)) = Some (getIncentivesAddress amb cid)"
proof -
  from assms(1) obtain m1 where
    "forEach_incentivesAddress pre cid acc = Inr m1"
    and "forEach_incentivesAddress (amb # post) cid m1 = Inr m"
    by (auto simp: forEach_incentivesAddress_append split: sum.splits)
  then obtain address where
    look: "getIncentivesAddress amb cid = Inr address"
    and rest: "forEach_incentivesAddress post cid (map_set (name amb) address m1) = Inr m"
    by (auto split: sum.splits)
  from forEach_incentivesAddress_other [OF rest assms(2)]
  have "map_of m (name amb) = Some address"
    by (simp add: map_set_def update_conv')
  with look show ?thesis by simp
qed

text \<open>
  With names that are pairwise distinct and not yet in the map, the walk appends one
  entry per adapter, in order.
\<close>

lemma forEach_incentivesAddress_distinct_names:
  "forEach_incentivesAddress ambs cid acc = Inr m \<Longrightarrow>
   distinct (map name ambs) \<Longrightarrow> name ` set ambs \<inter> fst ` set acc = {} \<Longrightarrow>
   map (\<lambda>(n, v). (n, Inr v)) m =
     map (\<lambda>(n, v). (n, Inr v)) acc @ map (\<lambda>a. (name a, getIncentivesAddress a cid)) ambs"
proof (induction ambs arbitrary: acc)
  case Nil
  then show ?case by simp
next
  case (Cons amb ambs)
  from Cons.prems(1) obtain address where
    look: "getIncentivesAddress amb cid = Inr address"
    and rest: "forEach_incentivesAddress ambs cid (map_set (name amb) address acc) = Inr m"
    by (auto split: sum.splits)
  from Cons.prems(3) have "name amb \<notin> fst ` set acc" by auto
  then have grown: "map_set (name amb) address acc = acc @ [(name amb, address)]"
    by (simp add: map_set_def update_fresh)
  from Cons.prems(2) have d: "distinct (map name ambs)" and "name amb \<notin> name ` set ambs"
    by auto
  with Cons.prems(3) have "name ` set ambs \<inter> fst ` set (acc @ [(name amb, address)]) = {}"
    by auto
  with Cons.IH [OF rest [unfolded grown] d] look show ?case
    by simp
qed

lemma example_global_default:
  "loadGlobalSubmitterConfig (example_configService empty_relayer_submitter cs ambs) example_heap
     = Inr (default_global_config 2, resolved_example_heap)"
  by (simp add: example_global default_global_config_def resolved_example_heap_def)

lemma example_worker_addresses:
  "loadWorkerConfig
     (example_configService empty_relayer_submitter cs
        (map (\<lambda>(n, a). example_amb n a) entries)) []
     (example_chain ''1'' empty_chain_submitter)
     (default_global_config 2) resolved_example_heap
   = Inr ((example_workerData 3)
            \<lparr>incentivesAddresses := fold (\<lambda>(n, a). map_set n a) entries []\<rparr>)"
proof -
  have walk: "forEach_incentivesAddress (map (\<lambda>(n, a). example_amb n a) entries) cid acc
      = Inr (fold (\<lambda>(n, a). map_set n a) entries acc)" for cid acc
    by (induction entries arbitrary: acc) (auto simp: example_amb_def)
  show ?thesis
    by (simp add: loadWorkerConfig_def example_configService_def example_chain_def
          empty_chain_submitter_def example_workerData_def Let_def walk
          coalesce_def getChainGasLimitBufferConfig_def js_assign_def map_set_def
          default_global_config_def resolved_example_heap_def)
qed

text \<open>
  C7, as the code has it. The claim of one entry per registered adapter fails when two
  adapters carry the same name: the map then holds one entry for the name, with the
  later adapter's address, and nothing for the earlier adapter's.
\<close>

theorem incentivesAddresses_same_name_counterexample:
  "loadGlobalSubmitterConfig
     (example_configService empty_relayer_submitter []
        [example_amb ''wormhole'' ''0xA'', example_amb ''wormhole'' ''0xB'']) example_heap
     = Inr (default_global_config 2, resolved_example_heap)
   \<and> loadWorkerConfig
     (example_configService empty_relayer_submitter []
        [example_amb ''wormhole'' ''0xA'', example_amb ''wormhole'' ''0xB'']) []
     (example_chain ''1'' empty_chain_submitter)
     (default_global_config 2) resolved_example_heap
     = Inr ((example_workerData 3)\<lparr>incentivesAddresses := [(''wormhole'', ''0xB'')]\<rparr>)
   \<and> getIncentivesAddress (example_amb ''wormhole'' ''0xA'') ''1'' = Inr ''0xA''
   \<and> map_of [(''wormhole'', ''0xB'')] ''wormhole'' \<noteq> Some ''0xA''
   \<and> length [(''wormhole'', ''0xB'')]
       \<noteq> length [example_amb ''wormhole'' ''0xA'', example_amb ''wormhole'' ''0xB'']"
  using example_worker_addresses [of "[]" "[(''wormhole'', ''0xA''), (''wormhole'', ''0xB'')]"]
  by (simp add: example_global_default map_set_def example_amb_def)

text \<open>
  C7, amended. For every chain whose worker configuration is built, and adapters with
  pairwise distinct names, \<open>incentivesAddresses\<close> has exactly one entry per registered
  adapter, in registration order: the adapter's name with the address its
  \<open>getIncentivesAddress\<close> returns for the chain's id.
\<close>

theorem incentivesAddresses_one_entry_per_adapter:
  assumes built: "loadWorkerConfig cs lo chainConfig g h = Inr w"
    and names: "distinct (map name (ambsConfig cs))"
  shows "map (\<lambda>(n, v). (n, Inr v)) (incentivesAddresses w) =
           map (\<lambda>a. (name a, getIncentivesAddress a (ChainConfig.chainId chainConfig)))
             (ambsConfig cs)
    \<and> map fst (incentivesAddresses w) = map name (ambsConfig cs)
    \<and> length (incentivesAddresses w) = length (ambsConfig cs)"
proof -
  have entries: "map (\<lambda>(n, v). (n, Inr v)) (incentivesAddresses w) =
           map (\<lambda>a. (name a, getIncentivesAddress a (ChainConfig.chainId chainConfig)))
             (ambsConfig cs)"
    using forEach_incentivesAddress_distinct_names
            [OF loadWorkerConfig_identity(1) [OF built] names]
    by simp
  from arg_cong [OF entries, of "map fst"]
  have keys: "map fst (incentivesAddresses w) = map name (ambsConfig cs)"
    by (simp add: comp_def case_prod_unfold)
  from arg_cong [OF keys, of length] have "length (incentivesAddresses w) = length (ambsConfig cs)"
    by simp
  with entries keys show ?thesis by simp
qed

theorem incentivesAddresses_one_entry_per_adapter_witness:
  "loadWorkerConfig
     (example_configService empty_relayer_submitter []
        [example_amb ''wormhole'' ''0xA'', example_amb ''layerzero'' ''0xB'']) []
     (example_chain ''1'' empty_chain_submitter)
     (default_global_config 2) resolved_example_heap
     = Inr ((example_workerData 3)
              \<lparr>incentivesAddresses := [(''wormhole'', ''0xA''), (''layerzero'', ''0xB'')]\<rparr>)
   \<and> distinct (map name (ambsConfig
        (example_configService empty_relayer_submitter []
           [example_amb ''wormhole'' ''0xA'', example_amb ''layerzero'' ''0xB''])))
   \<and> map fst [(''wormhole'', ''0xA''), (''layerzero'', ''0xB'')]
       = map name [example_amb ''wormhole'' ''0xA'', example_amb ''layerzero'' ''0xB'']"
proof -
  let ?ambs = "[example_amb ''wormhole'' ''0xA'', example_amb ''layerzero'' ''0xB'']"
  let ?cs = "example_configService empty_relayer_submitter [] ?ambs"
  let ?w = "(example_workerData 3)
              \<lparr>incentivesAddresses := [(''wormhole'', ''0xA''), (''layerzero'', ''0xB'')]\<rparr>"
  have built: "loadWorkerConfig ?cs [] (example_chain ''1'' empty_chain_submitter)
      (default_global_config 2) resolved_example_heap = Inr ?w"
    using example_worker_addresses [of "[]" "[(''wormhole'', ''0xA''), (''layerzero'', ''0xB'')]"]
    by (simp add: map_set_def)
  have names: "distinct (map name (ambsConfig ?cs))"
    by (simp add: example_configService_def example_amb_def)
  from incentivesAddresses_one_entry_per_adapter [OF built names]
  have "map fst (incentivesAddresses ?w) = map name (ambsConfig ?cs)"
    by blast
  then have keys: "map fst [(''wormhole'', ''0xA''), (''layerzero'', ''0xB'')] = map name ?ambs"
    by (simp add: example_configService_def example_workerData_def)
  show ?thesis
    by (intro conjI) (rule built names keys)+
qed

text \<open>
  C10. In the worker configuration built for a chain, the entry of a name is the address
  of the last registered adapter with that name, and each name has one entry: the map
  has as many entries as there are distinct adapter names, which is fewer than the
  adapters when two of them share a name and as many as the adapters when the names
  are pairwise distinct.
\<close>

theorem incentivesAddresses_last_write_wins:
  assumes built: "loadWorkerConfig cs lo chainConfig g h = Inr w"
  shows "(\<forall>pre amb post.
            ambsConfig cs = pre @ amb # post \<and> name amb \<notin> name ` set post \<longrightarrow>
            map_option Inr (map_of (incentivesAddresses w) (name amb))
              = Some (getIncentivesAddress amb (ChainConfig.chainId chainConfig)))
    \<and> distinct (map fst (incentivesAddresses w))
    \<and> length (incentivesAddresses w) = card (name ` set (ambsConfig cs))
    \<and> (\<not> distinct (map name (ambsConfig cs)) \<longrightarrow>
          length (incentivesAddresses w) < length (ambsConfig cs))
    \<and> (distinct (map name (ambsConfig cs)) \<longrightarrow>
          length (incentivesAddresses w) = length (ambsConfig cs))"
proof -
  note walk = loadWorkerConfig_identity(1) [OF built]
  have last: "map_option Inr (map_of (incentivesAddresses w) (name amb))
              = Some (getIncentivesAddress amb (ChainConfig.chainId chainConfig))"
    if "ambsConfig cs = pre @ amb # post" and "name amb \<notin> name ` set post"
    for pre amb post
    using forEach_incentivesAddress_last [OF walk [unfolded that(1)] that(2)] .
  have keys: "distinct (map fst (incentivesAddresses w))"
    using forEach_incentivesAddress_distinct [OF walk] by simp
  have "fst ` set (incentivesAddresses w) = name ` set (ambsConfig cs)"
    using forEach_incentivesAddress_keys [OF walk] by simp
  then have "card (set (map fst (incentivesAddresses w))) = card (name ` set (ambsConfig cs))"
    by simp
  with keys have size: "length (incentivesAddresses w) = card (name ` set (ambsConfig cs))"
    using distinct_card [of "map fst (incentivesAddresses w)"] by simp
  have "card (name ` set (ambsConfig cs)) = card (set (map name (ambsConfig cs)))"
    by simp
  have fewer: "length (incentivesAddresses w) < length (ambsConfig cs)"
    if "\<not> distinct (map name (ambsConfig cs))"
  proof -
    have "card (set (map name (ambsConfig cs))) \<le> length (map name (ambsConfig cs))"
      by (rule card_length)
    moreover from that
    have "card (set (map name (ambsConfig cs))) \<noteq> length (map name (ambsConfig cs))"
      using card_distinct [of "map name (ambsConfig cs)"] by blast
    ultimately show ?thesis using size by simp
  qed
  have same: "length (incentivesAddresses w) = length (ambsConfig cs)"
    if "distinct (map name (ambsConfig cs))"
    using distinct_card [OF that] size by simp
  from last keys size fewer same show ?thesis by blast
qed

theorem incentivesAddresses_last_write_wins_witness:
  "loadWorkerConfig
     (example_configService empty_relayer_submitter []
        [example_amb ''wormhole'' ''0xA'', example_amb ''layerzero'' ''0xB'',
         example_amb ''wormhole'' ''0xC'']) []
     (example_chain ''1'' empty_chain_submitter)
     (default_global_config 2) resolved_example_heap
     = Inr ((example_workerData 3)
              \<lparr>incentivesAddresses := [(''wormhole'', ''0xC''), (''layerzero'', ''0xB'')]\<rparr>)
   \<and> \<not> distinct (map name
          [example_amb ''wormhole'' ''0xA'', example_amb ''layerzero'' ''0xB'',
           example_amb ''wormhole'' ''0xC''])
   \<and> length [(''wormhole'', ''0xC''), (''layerzero'', ''0xB'')]
       < length [example_amb ''wormhole'' ''0xA'', example_amb ''layerzero'' ''0xB'',
           example_amb ''wormhole'' ''0xC'']
   \<and> map_of [(''wormhole'', ''0xC''), (''layerzero'', ''0xB'')] ''wormhole'' = Some ''0xC''"
proof -
  let ?ambs = "[example_amb ''wormhole'' ''0xA'', example_amb ''layerzero'' ''0xB'',
                example_amb ''wormhole'' ''0xC'']"
  let ?cs = "example_configService empty_relayer_submitter [] ?ambs"
  let ?m = "[(''wormhole'', ''0xC''), (''layerzero'', ''0xB'')]"
  let ?w = "(example_workerData 3)\<lparr>incentivesAddresses := ?m\<rparr>"
  have built: "loadWorkerConfig ?cs [] (example_chain ''1'' empty_chain_submitter)
      (default_global_config 2) resolved_example_heap = Inr ?w"
    using example_worker_addresses
      [of "[]" "[(''wormhole'', ''0xA''), (''layerzero'', ''0xB''), (''wormhole'', ''0xC'')]"]
    by (simp add: map_set_def)
  have shared: "\<not> distinct (map name ?ambs)"
    by (simp add: example_amb_def)
  have parts: "ambsConfig ?cs
      = [example_amb ''wormhole'' ''0xA'', example_amb ''layerzero'' ''0xB'']
          @ example_amb ''wormhole'' ''0xC'' # []"
    by (simp add: example_configService_def)
  note wins = incentivesAddresses_last_write_wins [OF built]
  from wins shared have "length (incentivesAddresses ?w) < length (ambsConfig ?cs)"
    by (simp add: example_configService_def)
  then have fewer: "length ?m < length ?ambs"
    by (simp add: example_configService_def example_workerData_def)
  from wins parts
  have "map_option Inr (map_of (incentivesAddresses ?w) (name (example_amb ''wormhole'' ''0xC'')))
      = Some (getIncentivesAddress (example_amb ''wormhole'' ''0xC'')
               (ChainConfig.chainId (example_chain ''1'' empty_chain_submitter)))"
    by (metis empty_iff empty_set image_empty)
  then have kept: "map_of ?m ''wormhole'' = Some ''0xC''"
    by (simp add: example_amb_def example_workerData_def)
  show ?thesis
    by (intro conjI) (rule built shared fewer kept)+
qed

section \<open>Initialisation of the supervisor\<close>

lemma onModuleInit_resolved:
  "loadGlobalSubmitterConfig cs (heap s) = Inr (g, h) \<Longrightarrow>
   onModuleInit cs lo dir s =
     (if \<not> truthy (GlobalSubmitterConfig.enabled g)
      then (Resolved,
            info ''Submitter has been disabled. Ending init early''
              ((info ''Starting the submitter on all chains...'' s)\<lparr>heap := h\<rparr>))
      else startWorkers cs lo dir g (map snd (chainsConfig cs))
             ((info ''Starting the submitter on all chains...'' s)\<lparr>heap := h\<rparr>))"
  by (simp add: onModuleInit_def info_def Let_def)

lemma onModuleInit_unresolved:
  "loadGlobalSubmitterConfig cs (heap s) = Inl e \<Longrightarrow>
   onModuleInit cs lo dir s = (Rejected e, info ''Starting the submitter on all chains...'' s)"
  by (simp add: onModuleInit_def info_def Let_def)

text \<open>
  C5. When the resolved global configuration has a falsy \<open>enabled\<close>, \<open>onModuleInit\<close>
  returns without an error after logging two informational messages, the second one
  saying that the submitter is disabled; it starts no worker thread and leaves the
  \<open>workers\<close> map as it was, which for the service as constructed is empty.
\<close>

theorem onModuleInit_disabled:
  assumes resolved: "loadGlobalSubmitterConfig cs (heap s) = Inr (g, h)"
    and off: "\<not> truthy (GlobalSubmitterConfig.enabled g)"
  shows "fst (onModuleInit cs lo dir s) = Resolved
    \<and> workers (snd (onModuleInit cs lo dir s)) = workers s
    \<and> threads (snd (onModuleInit cs lo dir s)) = threads s
    \<and> log (snd (onModuleInit cs lo dir s)) =
        log s @ [\<lparr>level = Info, payload = None,
                   message = ''Starting the submitter on all chains...''\<rparr>,
                 \<lparr>level = Info, payload = None,
                   message = ''Submitter has been disabled. Ending init early''\<rparr>]
    \<and> (\<forall>h0. s = new_SubmitterService h0 \<longrightarrow> workers (snd (onModuleInit cs lo dir s)) = [])"
proof -
  have run: "onModuleInit cs lo dir s =
      (Resolved,
       info ''Submitter has been disabled. Ending init early''
         ((info ''Starting the submitter on all chains...'' s)\<lparr>heap := h\<rparr>))"
    using off by (simp add: onModuleInit_resolved [OF resolved])
  show ?thesis
    unfolding run by (auto simp: info_def new_SubmitterService_def)
qed

lemma example_global_flag:
  "loadGlobalSubmitterConfig
     (example_configService (empty_relayer_submitter\<lparr>RelayerSubmitterConfig.enabled := v\<rparr>)
        cs ambs) example_heap
   = Inr ((default_global_config 2)
            \<lparr>GlobalSubmitterConfig.enabled := coalesce_value v (JBool True)\<rparr>,
          resolved_example_heap)"
  by (simp add: loadGlobalSubmitterConfig_def example_configService_def example_heap_def
        empty_relayer_submitter_def alloc_def Let_def js_in_def js_assign_def
        coalesce_def default_values default_global_config_def resolved_example_heap_def)

theorem onModuleInit_disabled_witness:
  "loadGlobalSubmitterConfig
     (example_configService
        (empty_relayer_submitter\<lparr>RelayerSubmitterConfig.enabled := JBool False\<rparr>)
        [example_chain ''1'' empty_chain_submitter] [example_amb ''wormhole'' ''0xW''])
     (heap (new_SubmitterService example_heap))
   = Inr ((default_global_config 2)\<lparr>GlobalSubmitterConfig.enabled := JBool False\<rparr>,
          resolved_example_heap)
   \<and> \<not> truthy (GlobalSubmitterConfig.enabled
         ((default_global_config 2)\<lparr>GlobalSubmitterConfig.enabled := JBool False\<rparr>))
   \<and> fst (onModuleInit
       (example_configService
          (empty_relayer_submitter\<lparr>RelayerSubmitterConfig.enabled := JBool False\<rparr>)
          [example_chain ''1'' empty_chain_submitter] [example_amb ''wormhole'' ''0xW''])
       [] ''/app'' (new_SubmitterService example_heap)) = Resolved
   \<and> workers (snd (onModuleInit
       (example_configService
          (empty_relayer_submitter\<lparr>RelayerSubmitterConfig.enabled := JBool False\<rparr>)
          [example_chain ''1'' empty_chain_submitter] [example_amb ''wormhole'' ''0xW''])
       [] ''/app'' (new_SubmitterService example_heap))) = []
   \<and> loadGlobalSubmitterConfig
     (example_configService
        (empty_relayer_submitter\<lparr>RelayerSubmitterConfig.enabled := JNumber 0\<rparr>)
        [example_chain ''1'' empty_chain_submitter] [example_amb ''wormhole'' ''0xW''])
     (heap (new_SubmitterService example_heap))
   = Inr ((default_global_config 2)\<lparr>GlobalSubmitterConfig.enabled := JNumber 0\<rparr>,
          resolved_example_heap)
   \<and> \<not> truthy (GlobalSubmitterConfig.enabled
         ((default_global_config 2)\<lparr>GlobalSubmitterConfig.enabled := JNumber 0\<rparr>))
   \<and> threads (snd (onModuleInit
       (example_configService
          (empty_relayer_submitter\<lparr>RelayerSubmitterConfig.enabled := JNumber 0\<rparr>)
          [example_chain ''1'' empty_chain_submitter] [example_amb ''wormhole'' ''0xW''])
       [] ''/app'' (new_SubmitterService example_heap))) = []"
proof -
  let ?off = "example_configService
          (empty_relayer_submitter\<lparr>RelayerSubmitterConfig.enabled := JBool False\<rparr>)
          [example_chain ''1'' empty_chain_submitter] [example_amb ''wormhole'' ''0xW'']"
  let ?zero = "example_configService
          (empty_relayer_submitter\<lparr>RelayerSubmitterConfig.enabled := JNumber 0\<rparr>)
          [example_chain ''1'' empty_chain_submitter] [example_amb ''wormhole'' ''0xW'']"
  let ?s = "new_SubmitterService example_heap"
  let ?goff = "(default_global_config 2)\<lparr>GlobalSubmitterConfig.enabled := JBool False\<rparr>"
  let ?gzero = "(default_global_config 2)\<lparr>GlobalSubmitterConfig.enabled := JNumber 0\<rparr>"
  have roff: "loadGlobalSubmitterConfig ?off (heap ?s) = Inr (?goff, resolved_example_heap)"
    by (simp add: new_SubmitterService_def example_global_flag coalesce_value_def)
  have rzero: "loadGlobalSubmitterConfig ?zero (heap ?s) = Inr (?gzero, resolved_example_heap)"
    by (simp add: new_SubmitterService_def example_global_flag coalesce_value_def)
  have off: "\<not> truthy (GlobalSubmitterConfig.enabled ?goff)"
    and zero: "\<not> truthy (GlobalSubmitterConfig.enabled ?gzero)"
    by simp_all
  from onModuleInit_disabled [OF roff off, of "[]" "''/app''"]
  have a: "fst (onModuleInit ?off [] ''/app'' ?s) = Resolved"
    and b: "workers (snd (onModuleInit ?off [] ''/app'' ?s)) = []"
    by (simp_all add: new_SubmitterService_def)
  from onModuleInit_disabled [OF rzero zero, of "[]" "''/app''"]
  have c: "threads (snd (onModuleInit ?zero [] ''/app'' ?s)) = []"
    by (simp add: new_SubmitterService_def)
  show ?thesis
    by (intro conjI) (rule roff off a b rzero zero c)+
qed

section \<open>The loop over the chains\<close>

lemma startWorkers_Inr:
  "loadWorkerConfig cs lo c g (heap s) = Inr d \<Longrightarrow>
   startWorkers cs lo dir g (c # rest) s =
     startWorkers cs lo dir g rest
       (s\<lparr>threads := threads s @ [started_worker dir c d],
          workers := map_set (ChainConfig.chainId c) (started_worker dir c d) (workers s)\<rparr>)"
  by (simp add: started_worker_def new_Worker_def Let_def)

lemma startWorkers_Inl:
  "loadWorkerConfig cs lo c g (heap s) = Inl e \<Longrightarrow>
   startWorkers cs lo dir g (c # rest) s = (Rejected e, s)"
  by simp

lemma startWorkers_heap_log:
  "heap (snd (startWorkers cs lo dir g cfgs s)) = heap s
   \<and> log (snd (startWorkers cs lo dir g cfgs s)) = log s"
proof (induction cfgs arbitrary: s)
  case Nil
  show ?case by simp
next
  case (Cons c cfgs)
  show ?case
  proof (cases "loadWorkerConfig cs lo c g (heap s)")
    case (Inl e)
    then show ?thesis by simp
  next
    case (Inr d)
    show ?thesis
      unfolding startWorkers_Inr [OF Inr] using Cons.IH by simp
  qed
qed

text \<open>When every chain of a list can be built, the loop starts one worker for each.\<close>

lemma startWorkers_all_built:
  "(\<And>c. c \<in> set cfgs \<Longrightarrow> \<exists>d. loadWorkerConfig cs lo c g (heap s) = Inr d) \<Longrightarrow>
   fst (startWorkers cs lo dir g cfgs s) = Resolved
   \<and> fst ` set (workers (snd (startWorkers cs lo dir g cfgs s)))
       = fst ` set (workers s) \<union> ChainConfig.chainId ` set cfgs
   \<and> length (threads (snd (startWorkers cs lo dir g cfgs s)))
       = length (threads s) + length cfgs"
proof (induction cfgs arbitrary: s)
  case Nil
  show ?case by simp
next
  case (Cons c cfgs)
  from Cons.prems [of c] obtain d where d: "loadWorkerConfig cs lo c g (heap s) = Inr d"
    by auto
  let ?s = "s\<lparr>threads := threads s @ [started_worker dir c d],
              workers := map_set (ChainConfig.chainId c) (started_worker dir c d) (workers s)\<rparr>"
  have "\<exists>d. loadWorkerConfig cs lo c' g (heap ?s) = Inr d" if "c' \<in> set cfgs" for c'
    using Cons.prems [of c'] that by simp
  from Cons.IH [of ?s, OF this] show ?case
    unfolding startWorkers_Inr [OF d]
    by (simp add: map_set_def dom_update)
qed

text \<open>The loop stops at the first chain that cannot be built.\<close>

lemma startWorkers_stops:
  assumes ok: "\<And>c'. c' \<in> set pre \<Longrightarrow> \<exists>d. loadWorkerConfig cs lo c' g (heap s) = Inr d"
    and bad: "loadWorkerConfig cs lo c g (heap s) = Inl e"
  shows "startWorkers cs lo dir g (pre @ c # post) s
           = (Rejected e, snd (startWorkers cs lo dir g pre s))"
  using ok bad
proof (induction pre arbitrary: s)
  case Nil
  then show ?case by simp
next
  case (Cons p pre)
  from Cons.prems(1) [of p] obtain d where d: "loadWorkerConfig cs lo p g (heap s) = Inr d"
    by auto
  let ?s = "s\<lparr>threads := threads s @ [started_worker dir p d],
              workers := map_set (ChainConfig.chainId p) (started_worker dir p d) (workers s)\<rparr>"
  have ok': "\<exists>d. loadWorkerConfig cs lo c' g (heap ?s) = Inr d" if "c' \<in> set pre" for c'
    using Cons.prems(1) [of c'] that by simp
  from Cons.prems(2) have bad': "loadWorkerConfig cs lo c g (heap ?s) = Inl e" by simp
  from Cons.IH [of ?s, OF ok' bad'] show ?case
    using startWorkers_Inr [OF d, of dir] by simp
qed

text \<open>
  Every worker the loop starts has one error listener and one exit listener, both
  closed over the chain id its worker data carries; this holds as well when the loop
  is left by a throw.
\<close>

lemma startWorkers_listeners:
  "w \<in> set (threads (snd (startWorkers cs lo dir g cfgs s))) \<Longrightarrow>
   w \<in> set (threads s)
   \<or> (on_error w = [FatalOnError (SubmitterWorkerData.chainId (workerData w))]
      \<and> on_exit w = [FatalOnExit (SubmitterWorkerData.chainId (workerData w))])"
proof (induction cfgs arbitrary: s)
  case Nil
  then show ?case by simp
next
  case (Cons c cfgs)
  show ?case
  proof (cases "loadWorkerConfig cs lo c g (heap s)")
    case (Inl e)
    with Cons.prems show ?thesis by simp
  next
    case (Inr d)
    let ?s = "s\<lparr>threads := threads s @ [started_worker dir c d],
                workers := map_set (ChainConfig.chainId c) (started_worker dir c d) (workers s)\<rparr>"
    from Cons.prems have "w \<in> set (threads (snd (startWorkers cs lo dir g cfgs ?s)))"
      unfolding startWorkers_Inr [OF Inr] .
    from Cons.IH [OF this] consider "w \<in> set (threads s)" | "w = started_worker dir c d"
      | "on_error w = [FatalOnError (SubmitterWorkerData.chainId (workerData w))]
         \<and> on_exit w = [FatalOnExit (SubmitterWorkerData.chainId (workerData w))]"
      by auto
    then show ?thesis
    proof cases
      case 2
      with loadWorkerConfig_identity(2) [OF Inr] show ?thesis
        by (simp add: started_worker_def)
    qed auto
  qed
qed

lemma example_worker_partial:
  "loadWorkerConfig
     (example_configService empty_relayer_submitter cs [partial_amb]) []
     (example_chain cid empty_chain_submitter)
     (default_global_config 2) resolved_example_heap
   = (if cid = ''1'' then Inl (Error ''no incentives address'')
      else Inr ((example_workerData 3)
                  \<lparr>SubmitterWorkerData.chainId := cid,
                   SubmitterWorkerData.rpc := ''http://rpc/'' @ cid\<rparr>))"
  by (simp add: loadWorkerConfig_def example_configService_def example_chain_def
        empty_chain_submitter_def partial_amb_def example_workerData_def Let_def
        js_assign_def map_set_def coalesce_def getChainGasLimitBufferConfig_def
        default_global_config_def resolved_example_heap_def)

text \<open>
  C3, as the code has it. With chains \<open>1\<close> and \<open>2\<close> configured in this order and an
  adapter that has no address on chain \<open>1\<close>, \<open>onModuleInit\<close> ends with the adapter's
  error: chain \<open>2\<close>, whose configuration can be built, gets no worker, and the only
  log entry is the starting message.
\<close>

theorem onModuleInit_failure_counterexample:
  "fst (onModuleInit
      (example_configService empty_relayer_submitter
         [example_chain ''1'' empty_chain_submitter, example_chain ''2'' empty_chain_submitter]
         [partial_amb])
      [] ''/app'' (new_SubmitterService example_heap))
     = Rejected (Error ''no incentives address'')
   \<and> workers (snd (onModuleInit
      (example_configService empty_relayer_submitter
         [example_chain ''1'' empty_chain_submitter, example_chain ''2'' empty_chain_submitter]
         [partial_amb])
      [] ''/app'' (new_SubmitterService example_heap))) = []
   \<and> threads (snd (onModuleInit
      (example_configService empty_relayer_submitter
         [example_chain ''1'' empty_chain_submitter, example_chain ''2'' empty_chain_submitter]
         [partial_amb])
      [] ''/app'' (new_SubmitterService example_heap))) = []
   \<and> log (snd (onModuleInit
      (example_configService empty_relayer_submitter
         [example_chain ''1'' empty_chain_submitter, example_chain ''2'' empty_chain_submitter]
         [partial_amb])
      [] ''/app'' (new_SubmitterService example_heap)))
     = [\<lparr>level = Info, payload = None, message = ''Starting the submitter on all chains...''\<rparr>]
   \<and> loadGlobalSubmitterConfig
      (example_configService empty_relayer_submitter
         [example_chain ''1'' empty_chain_submitter, example_chain ''2'' empty_chain_submitter]
         [partial_amb]) example_heap
     = Inr (default_global_config 2, resolved_example_heap)
   \<and> loadWorkerConfig
      (example_configService empty_relayer_submitter
         [example_chain ''1'' empty_chain_submitter, example_chain ''2'' empty_chain_submitter]
         [partial_amb]) []
      (example_chain ''2'' empty_chain_submitter)
      (default_global_config 2) resolved_example_heap
     = Inr ((example_workerData 3)
              \<lparr>SubmitterWorkerData.chainId := ''2'',
               SubmitterWorkerData.rpc := ''http://rpc/2''\<rparr>)"
proof -
  let ?chains =
    "[example_chain ''1'' empty_chain_submitter, example_chain ''2'' empty_chain_submitter]"
  let ?cs = "example_configService empty_relayer_submitter ?chains [partial_amb]"
  let ?s = "new_SubmitterService example_heap"
  have chains: "map snd (chainsConfig ?cs) = ?chains"
    by (simp add: example_configService_def)
  have global: "loadGlobalSubmitterConfig ?cs (heap ?s)
      = Inr (default_global_config 2, resolved_example_heap)"
    by (simp add: new_SubmitterService_def example_global_default)
  have on: "truthy (GlobalSubmitterConfig.enabled (default_global_config 2))"
    by (simp add: default_global_config_def)
  have run: "onModuleInit ?cs [] ''/app'' ?s
      = (Rejected (Error ''no incentives address''),
         (info ''Starting the submitter on all chains...'' ?s)
           \<lparr>heap := resolved_example_heap\<rparr>)"
    unfolding onModuleInit_resolved [OF global] chains
    using on by (simp add: example_worker_partial)
  have second: "loadWorkerConfig ?cs [] (example_chain ''2'' empty_chain_submitter)
      (default_global_config 2) resolved_example_heap
     = Inr ((example_workerData 3)
              \<lparr>SubmitterWorkerData.chainId := ''2'',
               SubmitterWorkerData.rpc := ''http://rpc/2''\<rparr>)"
    by (simp add: example_worker_partial)
  show ?thesis
    unfolding run using second
    by (simp add: info_def new_SubmitterService_def example_global_default)
qed

text \<open>
  C3, amended. When the configuration of a chain cannot be built, \<open>onModuleInit\<close> ends
  with that chain's error and logs nothing about it: the chains configured before the
  failing one have their workers, one thread each, and neither the failing chain nor
  any chain after it is started.
\<close>

theorem onModuleInit_stops_at_failure:
  assumes resolved: "loadGlobalSubmitterConfig cs (heap s) = Inr (g, h)"
    and on: "truthy (GlobalSubmitterConfig.enabled g)"
    and chains: "map snd (chainsConfig cs) = pre @ c # post"
    and ok: "\<forall>c' \<in> set pre. \<exists>d. loadWorkerConfig cs lo c' g h = Inr d"
    and bad: "loadWorkerConfig cs lo c g h = Inl e"
  shows "fst (onModuleInit cs lo dir s) = Rejected e
    \<and> fst ` set (workers (snd (onModuleInit cs lo dir s)))
        = fst ` set (workers s) \<union> ChainConfig.chainId ` set pre
    \<and> length (threads (snd (onModuleInit cs lo dir s))) = length (threads s) + length pre
    \<and> log (snd (onModuleInit cs lo dir s)) =
        log s @ [\<lparr>level = Info, payload = None,
                   message = ''Starting the submitter on all chains...''\<rparr>]"
proof -
  let ?s = "(info ''Starting the submitter on all chains...'' s)\<lparr>heap := h\<rparr>"
  have ok': "\<exists>d. loadWorkerConfig cs lo c' g (heap ?s) = Inr d" if "c' \<in> set pre" for c'
    using ok that by simp
  from bad have bad': "loadWorkerConfig cs lo c g (heap ?s) = Inl e" by simp
  have run: "onModuleInit cs lo dir s = (Rejected e, snd (startWorkers cs lo dir g pre ?s))"
    using on startWorkers_stops [of pre cs lo g ?s c e dir post, OF ok' bad']
    by (simp add: onModuleInit_resolved [OF resolved] chains)
  from startWorkers_all_built [of pre cs lo g ?s dir, OF ok']
    startWorkers_heap_log [of cs lo dir g pre ?s]
  show ?thesis
    unfolding run by (simp add: info_def)
qed

theorem onModuleInit_stops_at_failure_witness:
  "loadGlobalSubmitterConfig
      (example_configService empty_relayer_submitter
         [example_chain ''2'' empty_chain_submitter, example_chain ''1'' empty_chain_submitter,
          example_chain ''3'' empty_chain_submitter] [partial_amb])
      (heap (new_SubmitterService example_heap))
     = Inr (default_global_config 2, resolved_example_heap)
   \<and> truthy (GlobalSubmitterConfig.enabled (default_global_config 2))
   \<and> map snd (chainsConfig
      (example_configService empty_relayer_submitter
         [example_chain ''2'' empty_chain_submitter, example_chain ''1'' empty_chain_submitter,
          example_chain ''3'' empty_chain_submitter] [partial_amb]))
     = [example_chain ''2'' empty_chain_submitter]
         @ example_chain ''1'' empty_chain_submitter # [example_chain ''3'' empty_chain_submitter]
   \<and> loadWorkerConfig
      (example_configService empty_relayer_submitter
         [example_chain ''2'' empty_chain_submitter, example_chain ''1'' empty_chain_submitter,
          example_chain ''3'' empty_chain_submitter] [partial_amb]) []
      (example_chain ''1'' empty_chain_submitter) (default_global_config 2) resolved_example_heap
     = Inl (Error ''no incentives address'')
   \<and> fst (onModuleInit
      (example_configService empty_relayer_submitter
         [example_chain ''2'' empty_chain_submitter, example_chain ''1'' empty_chain_submitter,
          example_chain ''3'' empty_chain_submitter] [partial_amb])
      [] ''/app'' (new_SubmitterService example_heap))
     = Rejected (Error ''no incentives address'')
   \<and> fst ` set (workers (snd (onModuleInit
      (example_configService empty_relayer_submitter
         [example_chain ''2'' empty_chain_submitter, example_chain ''1'' empty_chain_submitter,
          example_chain ''3'' empty_chain_submitter] [partial_amb])
      [] ''/app'' (new_SubmitterService example_heap)))) = {''2''}
   \<and> length (threads (snd (onModuleInit
      (example_configService empty_relayer_submitter
         [example_chain ''2'' empty_chain_submitter, example_chain ''1'' empty_chain_submitter,
          example_chain ''3'' empty_chain_submitter] [partial_amb])
      [] ''/app'' (new_SubmitterService example_heap)))) = 1"
proof -
  let ?two = "example_chain ''2'' empty_chain_submitter"
  let ?one = "example_chain ''1'' empty_chain_submitter"
  let ?three = "example_chain ''3'' empty_chain_submitter"
  let ?cs = "example_configService empty_relayer_submitter [?two, ?one, ?three] [partial_amb]"
  let ?s = "new_SubmitterService example_heap"
  let ?g = "default_global_config 2"
  let ?h = "resolved_example_heap"
  have resolved: "loadGlobalSubmitterConfig ?cs (heap ?s) = Inr (?g, ?h)"
    by (simp add: new_SubmitterService_def example_global_default)
  have on: "truthy (GlobalSubmitterConfig.enabled ?g)"
    by (simp add: default_global_config_def)
  have chains: "map snd (chainsConfig ?cs) = [?two] @ ?one # [?three]"
    by (simp add: example_configService_def)
  have ok: "\<forall>c' \<in> set [?two]. \<exists>d. loadWorkerConfig ?cs [] c' ?g ?h = Inr d"
    by (simp add: example_worker_partial)
  have bad: "loadWorkerConfig ?cs [] ?one ?g ?h = Inl (Error ''no incentives address'')"
    by (simp add: example_worker_partial)
  from onModuleInit_stops_at_failure [OF resolved on chains ok bad, of "''/app''"]
  have a: "fst (onModuleInit ?cs [] ''/app'' ?s) = Rejected (Error ''no incentives address'')"
    and b: "fst ` set (workers (snd (onModuleInit ?cs [] ''/app'' ?s))) = {''2''}"
    and c: "length (threads (snd (onModuleInit ?cs [] ''/app'' ?s))) = 1"
    by (simp_all add: new_SubmitterService_def example_chain_def)
  show ?thesis
    by (intro conjI) (rule resolved on chains bad a b c)+
qed

section \<open>Worker faults\<close>

lemma onModuleInit_listeners:
  assumes "w \<in> set (threads (snd (onModuleInit cs lo dir s)))"
  shows "w \<in> set (threads s)
   \<or> (on_error w = [FatalOnError (SubmitterWorkerData.chainId (workerData w))]
      \<and> on_exit w = [FatalOnExit (SubmitterWorkerData.chainId (workerData w))])"
proof (cases "loadGlobalSubmitterConfig cs (heap s)")
  case (Inl e)
  with assms show ?thesis
    by (simp add: onModuleInit_unresolved info_def)
next
  case (Inr r)
  obtain g h where r: "r = (g, h)" by (cases r)
  note resolved = Inr [unfolded r]
  show ?thesis
  proof (cases "truthy (GlobalSubmitterConfig.enabled g)")
    case False
    with assms show ?thesis
      by (simp add: onModuleInit_resolved [OF resolved] info_def)
  next
    case True
    with assms startWorkers_listeners
      [of w cs lo dir g "map snd (chainsConfig cs)"
          "(info ''Starting the submitter on all chains...'' s)\<lparr>heap := h\<rparr>"]
    show ?thesis
      by (simp add: onModuleInit_resolved [OF resolved] info_def)
  qed
qed

lemma example_start:
  "threads (snd (onModuleInit
      (example_configService empty_relayer_submitter
         [example_chain ''1'' empty_chain_submitter] [example_amb ''wormhole'' ''0xW''])
      [] ''/app'' (new_SubmitterService example_heap)))
   = [started_worker ''/app'' (example_chain ''1'' empty_chain_submitter) (example_workerData 3)]"
proof -
  let ?cs = "example_configService empty_relayer_submitter
         [example_chain ''1'' empty_chain_submitter] [example_amb ''wormhole'' ''0xW'']"
  let ?s = "new_SubmitterService example_heap"
  have chains: "map snd (chainsConfig ?cs) = [example_chain ''1'' empty_chain_submitter]"
    by (simp add: example_configService_def)
  have global: "loadGlobalSubmitterConfig ?cs (heap ?s)
      = Inr (default_global_config 2, resolved_example_heap)"
    by (simp add: new_SubmitterService_def example_global_default)
  have on: "truthy (GlobalSubmitterConfig.enabled (default_global_config 2))"
    by (simp add: default_global_config_def)
  have built: "loadWorkerConfig ?cs [] (example_chain ''1'' empty_chain_submitter)
       (default_global_config 2) resolved_example_heap = Inr (example_workerData 3)"
    using example_worker_addresses
      [of "[example_chain ''1'' empty_chain_submitter]" "[(''wormhole'', ''0xW'')]"]
    by (simp add: map_set_def example_workerData_def)
  show ?thesis
    unfolding onModuleInit_resolved [OF global] chains
    using on
    by (simp add: built started_worker_def new_Worker_def Let_def info_def
          new_SubmitterService_def)
qed

section \<open>The text of an exit code\<close>

declare decimal.simps [simp del]

lemma digit_value_digit: "d < 10 \<Longrightarrow> digit_value (''0123456789'' ! d) = d"
proof -
  assume "d < 10"
  then consider "d = 0" | "d = 1" | "d = 2" | "d = 3" | "d = 4" | "d = 5" | "d = 6"
    | "d = 7" | "d = 8" | "d = 9"
    by atomize_elim arith
  then show ?thesis
    by cases (simp_all add: digit_value_def)
qed

lemma digit_is_digit: "d < 10 \<Longrightarrow> ''0123456789'' ! d \<in> set ''0123456789''"
  by (rule nth_mem) simp

lemma decimal_value_snoc: "decimal_value (ds @ [c]) = 10 * decimal_value ds + digit_value c"
  by (simp add: decimal_value_def)

lemma decimal_value_decimal: "decimal_value (decimal n) = n"
proof (induction n rule: decimal.induct)
  case (1 n)
  show ?case
  proof (cases "n < 10")
    case True
    then have "decimal n = [''0123456789'' ! n]"
      by (simp add: decimal.simps [of n])
    with True show ?thesis
      using decimal_value_snoc [of "[]" "''0123456789'' ! n"]
      by (simp add: decimal_value_def digit_value_digit)
  next
    case False
    then have unfold: "decimal n = decimal (n div 10) @ [''0123456789'' ! (n mod 10)]"
      by (simp add: decimal.simps [of n])
    from False "1.IH" have "decimal_value (decimal (n div 10)) = n div 10"
      by simp
    then show ?thesis
      unfolding unfold by (simp add: decimal_value_snoc digit_value_digit)
  qed
qed

lemma decimal_digits: "decimal n \<noteq> [] \<and> set (decimal n) \<subseteq> set ''0123456789''"
proof (induction n rule: decimal.induct)
  case (1 n)
  show ?case
  proof (cases "n < 10")
    case True
    then have "decimal n = [''0123456789'' ! n]"
      by (simp add: decimal.simps [of n])
    with digit_is_digit [OF True] show ?thesis
      by simp
  next
    case False
    then have unfold: "decimal n = decimal (n div 10) @ [''0123456789'' ! (n mod 10)]"
      by (simp add: decimal.simps [of n])
    have "''0123456789'' ! (n mod 10) \<in> set ''0123456789''"
      by (rule digit_is_digit) simp
    with False "1.IH" show ?thesis
      unfolding unfold by simp
  qed
qed

lemma decimal_no_sign: "\<exists>c cs. decimal n = c # cs \<and> c \<noteq> CHR ''-''"
proof -
  from decimal_digits [of n] obtain c cs where shape: "decimal n = c # cs"
    by (cases "decimal n") auto
  with decimal_digits [of n] have "c \<in> set ''0123456789''"
    by auto
  then have "c \<noteq> CHR ''-''"
    by auto
  with shape show ?thesis by blast
qed

lemma int_of_string_string_of_int: "int_of_string (string_of_int i) = i"
proof (cases "i < 0")
  case True
  then show ?thesis
    by (simp add: string_of_int_def int_of_string_def decimal_value_decimal)
next
  case False
  from decimal_no_sign [of "nat i"] obtain c cs where
    shape: "decimal (nat i) = c # cs" and sign: "c \<noteq> CHR ''-''"
    by blast
  have "int (decimal_value (decimal (nat i))) = i"
    using False by (simp add: decimal_value_decimal)
  with False sign show ?thesis
    by (simp add: string_of_int_def int_of_string_def shape [symmetric] split: list.splits)
       (simp add: shape)
qed

text \<open>
  C8, as the code has it. A worker that ends by an uncaught exception is one transition
  to the errored state, and it is reported by the \<open>error\<close> event followed by the \<open>exit\<close>
  event: the two listeners log two fatal entries for it, not one.
\<close>

theorem worker_fault_logged_twice_counterexample:
  "threads (snd (onModuleInit
      (example_configService empty_relayer_submitter
         [example_chain ''1'' empty_chain_submitter] [example_amb ''wormhole'' ''0xW''])
      [] ''/app'' (new_SubmitterService example_heap)))
     = [started_worker ''/app'' (example_chain ''1'' empty_chain_submitter) (example_workerData 3)]
   \<and> log (new_SubmitterService example_heap) = []
   \<and> log (worker_ends
        (started_worker ''/app'' (example_chain ''1'' empty_chain_submitter)
           (example_workerData 3))
        (Errored (Error ''boom'')) (new_SubmitterService example_heap))
     = [\<lparr>level = Fatal, payload = Some (Error ''boom''),
         message = ''Error on submitter worker (chain 1).''\<rparr>,
        \<lparr>level = Fatal, payload = None,
         message = ''Submitter worker exited with code 1 (chain 1).''\<rparr>]
   \<and> length (log (worker_ends
        (started_worker ''/app'' (example_chain ''1'' empty_chain_submitter)
           (example_workerData 3))
        (Errored (Error ''boom'')) (new_SubmitterService example_heap))) = 2"
proof -
  have code: "string_of_int 1 = ''1''"
    by (simp add: string_of_int_def decimal.simps [of "Suc 0"])
  show ?thesis
  proof (intro conjI)
    show "threads (snd (onModuleInit
      (example_configService empty_relayer_submitter
         [example_chain ''1'' empty_chain_submitter] [example_amb ''wormhole'' ''0xW''])
      [] ''/app'' (new_SubmitterService example_heap)))
     = [started_worker ''/app'' (example_chain ''1'' empty_chain_submitter)
          (example_workerData 3)]"
      by (rule example_start)
  qed (simp_all add: new_SubmitterService_def started_worker_def
         emit_error_def emit_exit_def fatal_def example_chain_def code)
qed

text \<open>
  C8, amended. For every worker thread that \<open>onModuleInit\<close> starts, each delivery of its
  \<open>error\<close> event, and likewise of its \<open>exit\<close> event, adds exactly one entry to the log,
  at fatal level, whose message names the chain id of that worker and, for \<open>exit\<close>, the
  exit code in decimal, which can be read back from the text. So a worker that exits
  is logged once, and a worker that ends by an uncaught exception is logged twice: once
  for the error, once for the exit with code 1 that follows. Nothing else changes: the
  \<open>workers\<close> map, the started threads and the store are as before, so no worker is
  restarted or replaced and no other worker is touched.
\<close>

theorem worker_events_logged_fatal:
  assumes started: "w \<in> set (threads (snd (onModuleInit cs lo dir s)))"
    and new: "w \<notin> set (threads s)"
  shows "emit_error w err st =
           st\<lparr>log := log st @
             [\<lparr>level = Fatal, payload = Some err,
               message = ''Error on submitter worker (chain ''
                           @ SubmitterWorkerData.chainId (workerData w) @ '').''\<rparr>]\<rparr>
    \<and> emit_exit w exitCode st =
           st\<lparr>log := log st @
             [\<lparr>level = Fatal, payload = None,
               message = ''Submitter worker exited with code '' @ string_of_int exitCode
                           @ '' (chain '' @ SubmitterWorkerData.chainId (workerData w) @ '').''\<rparr>]\<rparr>
    \<and> int_of_string (string_of_int exitCode) = exitCode
    \<and> worker_ends w (Exited exitCode) st =
           st\<lparr>log := log st @
             [\<lparr>level = Fatal, payload = None,
               message = ''Submitter worker exited with code '' @ string_of_int exitCode
                           @ '' (chain '' @ SubmitterWorkerData.chainId (workerData w) @ '').''\<rparr>]\<rparr>
    \<and> worker_ends w (Errored err) st =
           st\<lparr>log := log st @
             [\<lparr>level = Fatal, payload = Some err,
               message = ''Error on submitter worker (chain ''
                           @ SubmitterWorkerData.chainId (workerData w) @ '').''\<rparr>,
              \<lparr>level = Fatal, payload = None,
               message = ''Submitter worker exited with code 1 (chain ''
                           @ SubmitterWorkerData.chainId (workerData w) @ '').''\<rparr>]\<rparr>
    \<and> workers (worker_ends w fate st) = workers st
    \<and> threads (worker_ends w fate st) = threads st
    \<and> heap (worker_ends w fate st) = heap st"
proof -
  from onModuleInit_listeners [OF started] new
  have listeners: "on_error w = [FatalOnError (SubmitterWorkerData.chainId (workerData w))]"
    "on_exit w = [FatalOnExit (SubmitterWorkerData.chainId (workerData w))]"
    by auto
  have code: "string_of_int 1 = ''1''"
    by (simp add: string_of_int_def decimal.simps [of "Suc 0"])
  have unchanged: "workers (worker_ends w fate st) = workers st
    \<and> threads (worker_ends w fate st) = threads st
    \<and> heap (worker_ends w fate st) = heap st"
    by (cases fate) (simp_all add: listeners emit_error_def emit_exit_def fatal_def)
  from listeners code unchanged show ?thesis
    by (simp add: emit_error_def emit_exit_def fatal_def int_of_string_string_of_int)
qed

theorem worker_events_logged_fatal_witness:
  "started_worker ''/app'' (example_chain ''1'' empty_chain_submitter) (example_workerData 3)
     \<in> set (threads (snd (onModuleInit
          (example_configService empty_relayer_submitter
             [example_chain ''1'' empty_chain_submitter] [example_amb ''wormhole'' ''0xW''])
          [] ''/app'' (new_SubmitterService example_heap))))
   \<and> started_worker ''/app'' (example_chain ''1'' empty_chain_submitter) (example_workerData 3)
     \<notin> set (threads (new_SubmitterService example_heap))
   \<and> log (emit_exit
        (started_worker ''/app'' (example_chain ''1'' empty_chain_submitter)
           (example_workerData 3))
        137 (new_SubmitterService example_heap))
     = [\<lparr>level = Fatal, payload = None,
         message = ''Submitter worker exited with code 137 (chain 1).''\<rparr>]
   \<and> log (emit_exit
        (started_worker ''/app'' (example_chain ''1'' empty_chain_submitter)
           (example_workerData 3))
        0 (new_SubmitterService example_heap))
     = [\<lparr>level = Fatal, payload = None,
         message = ''Submitter worker exited with code 0 (chain 1).''\<rparr>]
   \<and> log (emit_exit
        (started_worker ''/app'' (example_chain ''1'' empty_chain_submitter)
           (example_workerData 3))
        (- 9) (new_SubmitterService example_heap))
     = [\<lparr>level = Fatal, payload = None,
         message = ''Submitter worker exited with code -9 (chain 1).''\<rparr>]
   \<and> log (emit_error
        (started_worker ''/app'' (example_chain ''1'' empty_chain_submitter)
           (example_workerData 3))
        (Error ''boom'') (new_SubmitterService example_heap))
     = [\<lparr>level = Fatal, payload = Some (Error ''boom''),
         message = ''Error on submitter worker (chain 1).''\<rparr>]"
proof -
  let ?w = "started_worker ''/app'' (example_chain ''1'' empty_chain_submitter)
              (example_workerData 3)"
  let ?cs = "example_configService empty_relayer_submitter
             [example_chain ''1'' empty_chain_submitter] [example_amb ''wormhole'' ''0xW'']"
  let ?s = "new_SubmitterService example_heap"
  have started: "?w \<in> set (threads (snd (onModuleInit ?cs [] ''/app'' ?s)))"
    by (simp add: example_start)
  have new: "?w \<notin> set (threads ?s)"
    by (simp add: new_SubmitterService_def)
  have big: "string_of_int 137 = ''137''"
    by (simp add: string_of_int_def decimal.simps [of 137] decimal.simps [of 13]
          decimal.simps [of "Suc 0"])
  have zero: "string_of_int 0 = ''0''"
    by (simp add: string_of_int_def decimal.simps [of 0])
  have minus: "string_of_int (- 9) = ''-9''"
    by (simp add: string_of_int_def decimal.simps [of 9])
  have chain: "SubmitterWorkerData.chainId (workerData ?w) = ''1''"
    by (simp add: started_worker_def example_workerData_def)
  from worker_events_logged_fatal [OF started new, of "Error ''boom''" ?s 137]
  have a: "log (emit_exit ?w 137 ?s)
     = [\<lparr>level = Fatal, payload = None,
         message = ''Submitter worker exited with code 137 (chain 1).''\<rparr>]"
    and d: "log (emit_error ?w (Error ''boom'') ?s)
     = [\<lparr>level = Fatal, payload = Some (Error ''boom''),
         message = ''Error on submitter worker (chain 1).''\<rparr>]"
    by (simp_all add: big chain new_SubmitterService_def)
  from worker_events_logged_fatal [OF started new, of "Error ''boom''" ?s 0]
  have b: "log (emit_exit ?w 0 ?s)
     = [\<lparr>level = Fatal, payload = None,
         message = ''Submitter worker exited with code 0 (chain 1).''\<rparr>]"
    by (simp add: zero chain new_SubmitterService_def)
  from worker_events_logged_fatal [OF started new, of "Error ''boom''" ?s "- 9"]
  have c: "log (emit_exit ?w (- 9) ?s)
     = [\<lparr>level = Fatal, payload = None,
         message = ''Submitter worker exited with code -9 (chain 1).''\<rparr>]"
    by (simp add: minus chain new_SubmitterService_def)
  show ?thesis
    by (intro conjI) (rule started new a b c d)+
qed

end
